theory Spec2Isabelle
  imports Complex_Main "HOL-Library.Log_Nat" "HOL-Library.Multiset"
begin

section \<open>The entity store (models.py)\<close>

text \<open>
  A \<open>datetime\<close> is a reading of \<open>datetime.now()\<close>: a naive Python datetime, taken as
  the number of microseconds on its time line. A request reads the clock several
  times; a \<open>clock\<close> gives its successive readings, \<open>clock 0\<close> being the first.
\<close>

type_synonym datetime = int

type_synonym clock = "nat \<Rightarrow> datetime"

text \<open>
  The dates of an election come from the request body, where a datetime is either
  naive or timezone-aware (\<open>Aware\<close> carries the UTC instant in microseconds). Python
  orders two naive datetimes and two aware ones, and raises \<open>TypeError\<close> on a naive and
  an aware one.
\<close>

datatype pydatetime = Naive int | Aware int

text \<open>
  One record per peewee model. Every model inherits \<open>created_at\<close> from \<open>BaseModel\<close> and
  gets the implicit integer primary key \<open>id\<close>. A foreign key is stored as the id of the
  row it points to. Fields carry a prefix, since two records cannot share a field name.
\<close>

record Election =
  e_id :: int
  e_created_at :: datetime
  e_title :: string
  e_description :: "string option"
  e_start_date :: pydatetime
  e_end_date :: pydatetime
  e_is_active :: bool

record Poll =
  p_id :: int
  p_created_at :: datetime
  p_election_id :: int
  p_title :: string
  p_description :: "string option"
  p_max_votes_per_voter :: int
  p_is_active :: bool

record Candidate =
  c_id :: int
  c_created_at :: datetime
  c_poll_id :: int
  c_name :: string
  c_description :: "string option"

record Voter =
  v_id :: int
  v_created_at :: datetime
  v_email :: string
  v_name :: string
  v_is_verified :: bool

record Vote =
  vote_id :: int
  vote_created_at :: datetime
  vote_poll_id :: int
  vote_candidate_id :: int
  vote_voter_id :: int
  vote_voted_at :: datetime

text \<open>
  The database: one list of rows per table, in rowid order (a new row is appended).
  A query with no \<open>ORDER BY\<close> is read as returning the rows in table order.
\<close>

record store =
  elections :: "Election list"
  polls :: "Poll list"
  candidates :: "Candidate list"
  voters :: "Voter list"
  votes :: "Vote list"

text \<open>
  \<open>Model.get(Model.id == i)\<close>: the row with that id, or \<open>None\<close> where peewee raises
  \<open>Model.DoesNotExist\<close>.
\<close>

definition Election_get :: "store \<Rightarrow> int \<Rightarrow> Election option" where
  "Election_get s i = find (\<lambda>e. e_id e = i) (elections s)"

definition Poll_get :: "store \<Rightarrow> int \<Rightarrow> Poll option" where
  "Poll_get s i = find (\<lambda>p. p_id p = i) (polls s)"

definition Candidate_get :: "store \<Rightarrow> int \<Rightarrow> Candidate option" where
  "Candidate_get s i = find (\<lambda>c. c_id c = i) (candidates s)"

definition Voter_get :: "store \<Rightarrow> int \<Rightarrow> Voter option" where
  "Voter_get s i = find (\<lambda>v. v_id v = i) (voters s)"

text \<open>The back references \<open>election.polls\<close> and \<open>poll.candidates\<close>.\<close>

definition election_polls :: "store \<Rightarrow> Election \<Rightarrow> Poll list" where
  "election_polls s election = filter (\<lambda>p. p_election_id p = e_id election) (polls s)"

definition poll_candidates :: "store \<Rightarrow> Poll \<Rightarrow> Candidate list" where
  "poll_candidates s poll = filter (\<lambda>c. c_poll_id c = p_id poll) (candidates s)"

text \<open>
  \<open>Vote.select().where(Vote.candidate == candidate).count()\<close> and
  \<open>Vote.select().where(Vote.poll == poll).count()\<close>.
\<close>

definition count_votes_candidate :: "store \<Rightarrow> Candidate \<Rightarrow> nat" where
  "count_votes_candidate s candidate =
     length (filter (\<lambda>v. vote_candidate_id v = c_id candidate) (votes s))"

definition count_votes_poll :: "store \<Rightarrow> Poll \<Rightarrow> nat" where
  "count_votes_poll s poll = length (filter (\<lambda>v. vote_poll_id v = p_id poll) (votes s))"

text \<open>\<open>query.first()\<close>: the first row of the result, or \<open>None\<close>.\<close>

definition first :: "'a list \<Rightarrow> 'a option" where
  "first xs = (case xs of [] \<Rightarrow> None | x # _ \<Rightarrow> Some x)"

text \<open>
  The id SQLite gives a new row of a table with an integer primary key: one more than
  the largest id in the table, 1 in an empty table.
\<close>

definition next_id :: "int list \<Rightarrow> int" where
  "next_id ids = fold max ids 0 + 1"

section \<open>Errors\<close>

text \<open>
  The handlers raise \<open>HTTPException(status_code, detail)\<close>. The detail messages of the
  source are Russian sentences; each constructor below stands for one of them:
  \<^item> \<open>Poll_not_found\<close>, \<open>Candidate_not_found\<close>, \<open>Voter_not_found\<close>, \<open>Election_not_found\<close>:
    the four 404 messages;
  \<^item> \<open>Candidate_not_in_poll\<close>: the candidate does not belong to the given poll;
  \<^item> \<open>Voter_already_voted\<close>: the voter has already voted in this poll;
  \<^item> \<open>Poll_not_active\<close>, \<open>Voter_not_verified\<close>;
  \<^item> \<open>Election_window_closed\<close>: voting in this campaign is not available now;
  \<^item> \<open>Start_not_before_end\<close>: the start date must be earlier than the end date.
  An exception that no \<open>except\<close> clause of the handler catches leaves the handler as it
  is (\<open>Unhandled\<close>).
\<close>

datatype detail =
    Poll_not_found | Candidate_not_found | Voter_not_found | Election_not_found
  | Candidate_not_in_poll | Voter_already_voted | Poll_not_active | Voter_not_verified
  | Election_window_closed | Start_not_before_end

datatype IntegrityError = UNIQUE_constraint_failed | FOREIGN_KEY_constraint_failed

datatype arith_error = ZeroDivisionError

datatype exn =
    IntegrityError IntegrityError | Election_DoesNotExist | ArithmeticError arith_error
  | TypeError | OverflowError

datatype failure = HTTPException nat detail | Unhandled exn

section \<open>Casting a vote (main.py, \<open>create_vote\<close>)\<close>

record VoteCreate =
  vc_poll_id :: int
  vc_candidate_id :: int
  vc_voter_id :: int

record VoteResponse =
  vr_poll_id :: int
  vr_candidate_id :: int
  vr_voter_id :: int
  vr_id :: int
  vr_voted_at :: datetime

definition VoteResponse_from_orm :: "Vote \<Rightarrow> VoteResponse" where
  "VoteResponse_from_orm v =
     \<lparr>vr_poll_id = vote_poll_id v, vr_candidate_id = vote_candidate_id v,
      vr_voter_id = vote_voter_id v, vr_id = vote_id v, vr_voted_at = vote_voted_at v\<rparr>"

text \<open>
  \<open>Vote.create(**vote.dict())\<close>: the insert, guarded by the store. The unique index on
  \<open>(poll, voter)\<close> and the foreign keys (pragma \<open>foreign_keys\<close> is on) make the insert
  raise peewee's \<open>IntegrityError\<close>; otherwise the row is appended. \<open>created_at\<close> and
  \<open>voted_at\<close> default to \<open>datetime.now\<close>, each reading the clock for itself:
  \<open>created_at_now\<close> and \<open>voted_at_now\<close> are the two readings.
\<close>

definition Vote_create ::
    "store \<Rightarrow> VoteCreate \<Rightarrow> datetime \<Rightarrow> datetime \<Rightarrow> IntegrityError + Vote \<times> store" where
  "Vote_create s vote created_at_now voted_at_now =
     (if \<exists>v \<in> set (votes s). vote_poll_id v = vc_poll_id vote \<and> vote_voter_id v = vc_voter_id vote
      then Inl UNIQUE_constraint_failed
      else if Poll_get s (vc_poll_id vote) = None \<or> Candidate_get s (vc_candidate_id vote) = None
              \<or> Voter_get s (vc_voter_id vote) = None
      then Inl FOREIGN_KEY_constraint_failed
      else let row = \<lparr>vote_id = next_id (map vote_id (votes s)), vote_created_at = created_at_now,
                       vote_poll_id = vc_poll_id vote, vote_candidate_id = vc_candidate_id vote,
                       vote_voter_id = vc_voter_id vote, vote_voted_at = voted_at_now\<rparr>
           in Inr (row, s\<lparr>votes := votes s @ [row]\<rparr>))"

text \<open>
  The ids of a request are Python ints of any size. SQLite binds a 64-bit signed
  integer: a query on an id outside that range raises \<open>OverflowError\<close> before it
  reaches the table.
\<close>

definition in_int64 :: "int \<Rightarrow> bool" where
  "in_int64 i \<longleftrightarrow> - (2 ^ 63) \<le> i \<and> i < 2 ^ 63"

text \<open>
  A date column as the handler reads it back. A naive datetime is written in a format
  that peewee's \<open>DateTimeField\<close> parses, and comes back as a datetime. An aware
  datetime is written with its UTC offset, which none of the field's formats parses:
  it comes back as a \<open>str\<close>, and comparing the naive \<open>now\<close> with a \<open>str\<close> raises
  \<open>TypeError\<close>.
\<close>

definition now_lt_column :: "datetime \<Rightarrow> pydatetime \<Rightarrow> exn + bool" where
  "now_lt_column now column = (case column of Naive t \<Rightarrow> Inr (now < t) | Aware _ \<Rightarrow> Inl TypeError)"

definition now_gt_column :: "datetime \<Rightarrow> pydatetime \<Rightarrow> exn + bool" where
  "now_gt_column now column = (case column of Naive t \<Rightarrow> Inr (now > t) | Aware _ \<Rightarrow> Inl TypeError)"

text \<open>
  Line 401, \<open>now < election.start_date or now > election.end_date\<close>: the second
  comparison is evaluated only when the first is false.
\<close>

definition outside_window :: "datetime \<Rightarrow> Election \<Rightarrow> exn + bool" where
  "outside_window now election =
     (case now_lt_column now (e_start_date election) of
        Inl e \<Rightarrow> Inl e
      | Inr True \<Rightarrow> Inr True
      | Inr False \<Rightarrow> now_gt_column now (e_end_date election))"

text \<open>
  The checks of \<open>create_vote\<close> (lines 365 to 405), in the order of the source; the result
  is the exception that leaves the handler, or \<open>None\<close> when the handler reaches the
  insert. \<open>now\<close> is the reading of the clock at line 400. \<open>candidate.poll\<close> and
  \<open>poll.election\<close> load the referenced row, and raise its model's \<open>DoesNotExist\<close> when
  it is missing. The handler catches \<open>Poll.DoesNotExist\<close>, \<open>Candidate.DoesNotExist\<close>
  and \<open>Voter.DoesNotExist\<close> (404); it catches neither \<open>Election.DoesNotExist\<close> nor
  \<open>OverflowError\<close> nor \<open>TypeError\<close>.
\<close>

definition create_vote_checks :: "store \<Rightarrow> datetime \<Rightarrow> VoteCreate \<Rightarrow> failure option" where
  "create_vote_checks s now vote =
     (if \<not> in_int64 (vc_poll_id vote) then Some (Unhandled OverflowError) else
      case Poll_get s (vc_poll_id vote) of
        None \<Rightarrow> Some (HTTPException 404 Poll_not_found)
      | Some poll \<Rightarrow>
     (if \<not> in_int64 (vc_candidate_id vote) then Some (Unhandled OverflowError) else
      case Candidate_get s (vc_candidate_id vote) of
        None \<Rightarrow> Some (HTTPException 404 Candidate_not_found)
      | Some candidate \<Rightarrow>
     (if \<not> in_int64 (vc_voter_id vote) then Some (Unhandled OverflowError) else
      case Voter_get s (vc_voter_id vote) of
        None \<Rightarrow> Some (HTTPException 404 Voter_not_found)
      | Some voter \<Rightarrow>
     (case Poll_get s (c_poll_id candidate) of
        None \<Rightarrow> Some (HTTPException 404 Poll_not_found)
      | Some candidate_poll \<Rightarrow>
          if p_id candidate_poll \<noteq> p_id poll
          then Some (HTTPException 400 Candidate_not_in_poll)
          else if first (filter (\<lambda>v. vote_poll_id v = p_id poll \<and> vote_voter_id v = v_id voter)
                           (votes s)) \<noteq> None
          then Some (HTTPException 400 Voter_already_voted)
          else if \<not> p_is_active poll
          then Some (HTTPException 400 Poll_not_active)
          else if \<not> v_is_verified voter
          then Some (HTTPException 400 Voter_not_verified)
          else (case Election_get s (p_election_id poll) of
                  None \<Rightarrow> Some (Unhandled Election_DoesNotExist)
                | Some election \<Rightarrow>
                    (case outside_window now election of
                       Inl e \<Rightarrow> Some (Unhandled e)
                     | Inr True \<Rightarrow> Some (HTTPException 400 Election_window_closed)
                     | Inr False \<Rightarrow> None))))))"

text \<open>
  The insert and what follows it (lines 407 to 409). No \<open>except\<close> clause of the handler
  matches \<open>IntegrityError\<close>, so it leaves the handler unhandled.
\<close>

definition create_vote_commit ::
    "store \<Rightarrow> datetime \<Rightarrow> datetime \<Rightarrow> VoteCreate \<Rightarrow> (failure + VoteResponse) \<times> store" where
  "create_vote_commit s created_at_now voted_at_now vote =
     (case Vote_create s vote created_at_now voted_at_now of
        Inl e \<Rightarrow> (Inl (Unhandled (IntegrityError e)), s)
      | Inr (vote_db, s') \<Rightarrow> (Inr (VoteResponse_from_orm vote_db), s'))"

text \<open>
  A request runs its reads and its insert as separate statements against the shared
  database, so another request may commit between them. \<open>create_vote_interleaved s s'\<close>
  is the handler whose reads saw the store \<open>s\<close> and whose insert meets the store \<open>s'\<close>;
  \<open>create_vote\<close> is the handler running alone. Both return the response or the
  exception, and the store they leave. The handler reads the clock three times: at
  line 400 (\<open>clock 0\<close>), and in \<open>Vote.create\<close> for \<open>created_at\<close> (\<open>clock 1\<close>) and for
  \<open>voted_at\<close> (\<open>clock 2\<close>).
\<close>

definition create_vote_interleaved ::
    "store \<Rightarrow> store \<Rightarrow> clock \<Rightarrow> VoteCreate \<Rightarrow> (failure + VoteResponse) \<times> store" where
  "create_vote_interleaved s s' clock vote =
     (case create_vote_checks s (clock 0) vote of
        Some err \<Rightarrow> (Inl err, s')
      | None \<Rightarrow> create_vote_commit s' (clock 1) (clock 2) vote)"

definition create_vote :: "store \<Rightarrow> clock \<Rightarrow> VoteCreate \<Rightarrow> (failure + VoteResponse) \<times> store" where
  "create_vote s clock vote = create_vote_interleaved s s clock vote"

text \<open>
  Referential integrity, which the store enforces (foreign keys are switched on and
  deletes cascade): every candidate's poll and every poll's election exist.
\<close>

definition fk_ok :: "store \<Rightarrow> bool" where
  "fk_ok s \<longleftrightarrow>
     list_all (\<lambda>c. Poll_get s (c_poll_id c) \<noteq> None) (candidates s) \<and>
     list_all (\<lambda>p. Election_get s (p_election_id p) \<noteq> None) (polls s)"

section \<open>Elections (main.py, \<open>create_election\<close> and \<open>update_election\<close>)\<close>

record ElectionCreate =
  ec_title :: string
  ec_description :: "string option"
  ec_start_date :: pydatetime
  ec_end_date :: pydatetime
  ec_is_active :: bool

text \<open>
  \<open>ElectionResponse\<close> has the fields of \<open>ElectionCreate\<close> and \<open>id\<close> and \<open>created_at\<close>:
  the fields of the row, so \<open>ElectionResponse.from_orm\<close> hands the row back.
\<close>

type_synonym ElectionResponse = Election

text \<open>\<open>a >= b\<close> on two datetimes of a request.\<close>

definition py_ge :: "pydatetime \<Rightarrow> pydatetime \<Rightarrow> exn + bool" where
  "py_ge a b =
     (case (a, b) of
        (Naive x, Naive y) \<Rightarrow> Inr (x \<ge> y)
      | (Aware x, Aware y) \<Rightarrow> Inr (x \<ge> y)
      | _ \<Rightarrow> Inl TypeError)"

definition create_election ::
    "store \<Rightarrow> datetime \<Rightarrow> ElectionCreate \<Rightarrow> (failure + ElectionResponse) \<times> store" where
  "create_election s now election =
     (case py_ge (ec_start_date election) (ec_end_date election) of
        Inl e \<Rightarrow> (Inl (Unhandled e), s)
      | Inr True \<Rightarrow> (Inl (HTTPException 400 Start_not_before_end), s)
      | Inr False \<Rightarrow>
          let election_db =
                 \<lparr>e_id = next_id (map e_id (elections s)), e_created_at = now,
                  e_title = ec_title election, e_description = ec_description election,
                  e_start_date = ec_start_date election, e_end_date = ec_end_date election,
                  e_is_active = ec_is_active election\<rparr>
          in (Inr election_db, s\<lparr>elections := elections s @ [election_db]\<rparr>))"

text \<open>
  \<open>update_election\<close>: the row is read first (404 when it is missing), then the dates are
  checked, then every field of the request is set on the row and \<open>save()\<close> writes the row
  back under its id.
\<close>

definition update_election ::
    "store \<Rightarrow> int \<Rightarrow> ElectionCreate \<Rightarrow> (failure + ElectionResponse) \<times> store" where
  "update_election s election_id election =
     (case Election_get s election_id of
        None \<Rightarrow> (Inl (HTTPException 404 Election_not_found), s)
      | Some election_db \<Rightarrow>
          (case py_ge (ec_start_date election) (ec_end_date election) of
             Inl e \<Rightarrow> (Inl (Unhandled e), s)
           | Inr True \<Rightarrow> (Inl (HTTPException 400 Start_not_before_end), s)
           | Inr False \<Rightarrow>
               let election_db' = election_db
                     \<lparr>e_title := ec_title election, e_description := ec_description election,
                      e_start_date := ec_start_date election, e_end_date := ec_end_date election,
                      e_is_active := ec_is_active election\<rparr>
               in (Inr election_db',
                   s\<lparr>elections := map (\<lambda>e. if e_id e = e_id election_db then election_db' else e)
                                       (elections s)\<rparr>)))"

section \<open>Candidates (main.py, \<open>update_candidate\<close>)\<close>

record CandidateCreate =
  cc_poll_id :: int
  cc_name :: string
  cc_description :: "string option"

type_synonym CandidateResponse = Candidate

text \<open>
  \<open>update_candidate\<close>: the candidate and the poll named in the request must exist (404
  otherwise); then every field of the request, the poll included, is set on the row and
  saved. The unique index on \<open>(poll, name)\<close> makes \<open>save()\<close> raise \<open>IntegrityError\<close>,
  which the handler does not catch.
\<close>

definition update_candidate ::
    "store \<Rightarrow> int \<Rightarrow> CandidateCreate \<Rightarrow> (failure + CandidateResponse) \<times> store" where
  "update_candidate s candidate_id candidate =
     (case Candidate_get s candidate_id of
        None \<Rightarrow> (Inl (HTTPException 404 Candidate_not_found), s)
      | Some candidate_db \<Rightarrow>
     (case Poll_get s (cc_poll_id candidate) of
        None \<Rightarrow> (Inl (HTTPException 404 Poll_not_found), s)
      | Some _ \<Rightarrow>
          if \<exists>c \<in> set (candidates s). c_id c \<noteq> c_id candidate_db \<and>
               c_poll_id c = cc_poll_id candidate \<and> c_name c = cc_name candidate
          then (Inl (Unhandled (IntegrityError UNIQUE_constraint_failed)), s)
          else let candidate_db' = candidate_db
                     \<lparr>c_poll_id := cc_poll_id candidate, c_name := cc_name candidate,
                      c_description := cc_description candidate\<rparr>
               in (Inr candidate_db',
                   s\<lparr>candidates := map (\<lambda>c. if c_id c = c_id candidate_db then candidate_db' else c)
                                        (candidates s)\<rparr>)))"

section \<open>Python numbers\<close>

text \<open>
  The percentage of a result is a Python number: the \<open>int\<close> 0, or a \<open>float\<close>. A float is
  an IEEE 754 binary64 value, represented by the rational number it denotes.
\<close>

datatype pynum = PyInt int | PyFloat rat

definition pow2 :: "int \<Rightarrow> rat" where
  "pow2 e = (if 0 \<le> e then 2 ^ nat e else 1 / 2 ^ nat (- e))"

text \<open>Rounding a rational to an integer, to nearest, a tie to the even neighbour.\<close>

definition round_half_even :: "rat \<Rightarrow> int" where
  "round_half_even x =
     (let f = \<lfloor>x\<rfloor>; d = x - of_int f
      in if d < 1 / 2 then f else if 1 / 2 < d then f + 1 else if even f then f else f + 1)"

text \<open>
  \<open>binade x\<close> is the exponent \<open>e\<close> with \<open>2^e \<le> x < 2^(e+1)\<close>, for a positive \<open>x\<close>
  with numerator \<open>n\<close> and denominator \<open>d\<close>: the bit lengths of \<open>n\<close> and \<open>d\<close>
  give it up to one.
\<close>

definition binade :: "rat \<Rightarrow> int" where
  "binade x =
     (let (n, d) = quotient_of x; e = bitlen n - bitlen d
      in if pow2 e \<le> x then e else e - 1)"

text \<open>
  The binary64 value nearest to a rational (round to nearest, ties to even): a multiple
  of \<open>2^e\<close>, where \<open>e\<close> leaves the significand 53 bits and is no smaller than the
  exponent of the subnormal numbers. Overflow is left out: the handlers apply float
  arithmetic to quotients of row counts and to their hundredfold, and a row count of
  the store is a 64-bit integer.
\<close>

definition binary64 :: "rat \<Rightarrow> rat" where
  "binary64 x =
     (if x = 0 then 0
      else let e = max (binade \<bar>x\<bar> - 52) (- 1074)
           in of_int (round_half_even (x / pow2 e)) * pow2 e)"

text \<open>
  \<open>a / b\<close> on two non-negative ints is true division: the float nearest to the exact
  quotient, and \<open>ZeroDivisionError\<close> when \<open>b\<close> is 0.
\<close>

definition py_truediv :: "nat \<Rightarrow> nat \<Rightarrow> arith_error + rat" where
  "py_truediv a b = (if b = 0 then Inl ZeroDivisionError else Inr (binary64 (of_nat a / of_nat b)))"

text \<open>
  \<open>x * n\<close> on a float \<open>x\<close> and an int \<open>n\<close>: the int becomes a float (100 becomes
  100.0), and the product of the two floats is rounded.
\<close>

definition py_float_mul_int :: "rat \<Rightarrow> int \<Rightarrow> rat" where
  "py_float_mul_int x n = binary64 (x * binary64 (of_int n))"

text \<open>
  \<open>round(x, 2)\<close>. On an int it is the int itself. On a float CPython converts the exact
  binary value to the nearest decimal with two digits after the point, a tie going to
  the even last digit, and reads that decimal back as a float.
\<close>

definition py_round2 :: "pynum \<Rightarrow> pynum" where
  "py_round2 x =
     (case x of
        PyInt n \<Rightarrow> PyInt n
      | PyFloat y \<Rightarrow> PyFloat (binary64 (of_int (round_half_even (y * 100)) / 100)))"

section \<open>Poll results (main.py, \<open>get_poll_results\<close>)\<close>

record ResultEntry =
  r_candidate_id :: int
  r_candidate_name :: string
  r_candidate_description :: "string option"
  r_votes :: nat
  r_percentage :: pynum

record PollResults =
  pr_poll_id :: int
  pr_poll_title :: string
  pr_total_votes :: nat
  pr_unique_voters :: nat
  pr_results :: "ResultEntry list"

text \<open>
  Line 442: \<open>(votes_count / n * 100) if n > 0 else 0\<close>, where \<open>n\<close> is the number of
  Vote rows of the poll. The condition is evaluated first.
\<close>

definition percentage_expr :: "nat \<Rightarrow> nat \<Rightarrow> arith_error + pynum" where
  "percentage_expr votes_count n =
     (if n > 0
      then (case py_truediv votes_count n of
              Inl e \<Rightarrow> Inl e
            | Inr q \<Rightarrow> Inr (PyFloat (py_float_mul_int q 100)))
      else Inr (PyInt 0))"

text \<open>
  One pass through the body of the loop over \<open>poll.candidates\<close> (lines 441 to 450):
  the dict appended to \<open>results\<close>, or the exception raised on the way.
\<close>

definition result_entry :: "store \<Rightarrow> Poll \<Rightarrow> Candidate \<Rightarrow> arith_error + ResultEntry" where
  "result_entry s poll candidate =
     (let votes_count = count_votes_candidate s candidate
      in case percentage_expr votes_count (count_votes_poll s poll) of
           Inl e \<Rightarrow> Inl e
         | Inr percentage \<Rightarrow>
             Inr \<lparr>r_candidate_id = c_id candidate, r_candidate_name = c_name candidate,
                  r_candidate_description = c_description candidate,
                  r_votes = votes_count, r_percentage = py_round2 percentage\<rparr>)"

text \<open>
  The loop (lines 440 to 451), with its two accumulators \<open>results\<close> and \<open>total_votes\<close>;
  an exception ends it.
\<close>

fun results_loop ::
    "store \<Rightarrow> Poll \<Rightarrow> Candidate list \<Rightarrow> ResultEntry list \<Rightarrow> nat \<Rightarrow> arith_error + ResultEntry list \<times> nat" where
  "results_loop s poll [] results total_votes = Inr (results, total_votes)"
| "results_loop s poll (candidate # rest) results total_votes =
     (case result_entry s poll candidate of
        Inl e \<Rightarrow> Inl e
      | Inr entry \<Rightarrow>
          results_loop s poll rest (results @ [entry]) (total_votes + r_votes entry))"

text \<open>
  \<open>list.sort(key=f, reverse=True)\<close>: CPython reverses the list, sorts it with its stable
  sort, and reverses the outcome. A stable sort by a key has one possible outcome, the
  one of insertion sort (\<open>sort_key\<close>).
\<close>

definition sort_reverse :: "('a \<Rightarrow> 'k::linorder) \<Rightarrow> 'a list \<Rightarrow> 'a list" where
  "sort_reverse f xs = rev (sort_key f (rev xs))"

definition get_poll_results :: "store \<Rightarrow> int \<Rightarrow> failure + PollResults" where
  "get_poll_results s poll_id =
     (case Poll_get s poll_id of
        None \<Rightarrow> Inl (HTTPException 404 Poll_not_found)
      | Some poll \<Rightarrow>
          (case results_loop s poll (poll_candidates s poll) [] 0 of
             Inl e \<Rightarrow> Inl (Unhandled (ArithmeticError e))
           | Inr (results, total_votes) \<Rightarrow>
               Inr \<lparr>pr_poll_id = p_id poll, pr_poll_title = p_title poll,
                    pr_total_votes = total_votes,
                    pr_unique_voters = count_votes_poll s poll,
                    pr_results = sort_reverse r_votes results\<rparr>))"

section \<open>Election statistics (main.py, \<open>get_election_stats\<close>)\<close>

record PollStats =
  ps_poll_id :: int
  ps_poll_title :: string
  ps_votes_count :: nat
  ps_candidates_count :: nat

record ElectionStats =
  es_election_id :: int
  es_election_title :: string
  es_total_polls :: nat
  es_total_votes :: nat
  es_total_unique_voters :: nat
  es_polls :: "PollStats list"

text \<open>The loop over \<open>election.polls\<close> (lines 479 to 488).\<close>

fun stats_loop :: "store \<Rightarrow> Poll list \<Rightarrow> PollStats list \<Rightarrow> nat \<Rightarrow> PollStats list \<times> nat" where
  "stats_loop s [] polls_stats total_votes = (polls_stats, total_votes)"
| "stats_loop s (poll # rest) polls_stats total_votes =
     (let poll_votes = count_votes_poll s poll
      in stats_loop s rest
           (polls_stats @ [\<lparr>ps_poll_id = p_id poll, ps_poll_title = p_title poll,
                             ps_votes_count = poll_votes,
                             ps_candidates_count = length (poll_candidates s poll)\<rparr>])
           (total_votes + poll_votes))"

text \<open>
  \<open>Vote.poll.in_(election.polls)\<close>: used as a subquery, the select of the polls yields
  their primary keys.
\<close>

definition get_election_stats :: "store \<Rightarrow> int \<Rightarrow> failure + ElectionStats" where
  "get_election_stats s election_id =
     (case Election_get s election_id of
        None \<Rightarrow> Inl (HTTPException 404 Election_not_found)
      | Some election \<Rightarrow>
          let total_polls = length (election_polls s election);
              total_voters =
                length (filter (\<lambda>v. vote_poll_id v \<in> set (map p_id (election_polls s election)))
                          (votes s));
              (polls_stats, total_votes) = stats_loop s (election_polls s election) [] 0
          in Inr \<lparr>es_election_id = e_id election, es_election_title = e_title election,
                  es_total_polls = total_polls, es_total_votes = total_votes,
                  es_total_unique_voters = total_voters, es_polls = polls_stats\<rparr>)"

section \<open>Properties of a store\<close>

text \<open>
  Every stored election starts before it ends: its two dates can be compared, and
  \<open>start_date >= end_date\<close> is false.
\<close>

definition dates_ok :: "store \<Rightarrow> bool" where
  "dates_ok s \<longleftrightarrow> list_all (\<lambda>e. py_ge (e_start_date e) (e_end_date e) = Inr False) (elections s)"

text \<open>
  Every vote is for a candidate of the poll it is cast in: the candidate of the vote
  exists, and its poll is the poll of the vote.
\<close>

definition votes_match_candidates :: "store \<Rightarrow> bool" where
  "votes_match_candidates s \<longleftrightarrow>
     list_all (\<lambda>v. case Candidate_get s (vote_candidate_id v) of
                      None \<Rightarrow> False
                    | Some c \<Rightarrow> c_poll_id c = vote_poll_id v) (votes s)"

section \<open>The percentage as the specification words it\<close>

text \<open>
  The specification's reading of line 442 and of \<open>round\<close>: 0 when there are no votes,
  else \<open>votes / total * 100\<close> rounded to two decimal places, a half going away from
  zero.
\<close>

definition spec_round_half_away :: "rat \<Rightarrow> int" where
  "spec_round_half_away x = (if 0 \<le> x then \<lfloor>x + 1 / 2\<rfloor> else - \<lfloor>- x + 1 / 2\<rfloor>)"

definition spec_percentage :: "nat \<Rightarrow> nat \<Rightarrow> rat" where
  "spec_percentage votes_count total_votes =
     (if total_votes = 0 then 0
      else of_int (spec_round_half_away (of_nat votes_count / of_nat total_votes * 100 * 100)) / 100)"

section \<open>Stores that differ in \<open>max_votes_per_voter\<close>\<close>

text \<open>
  The store in which every poll \<open>p\<close> has \<open>max_votes_per_voter = f p\<close> and all else
  is as in \<open>s\<close>.
\<close>

definition set_max_votes_per_voter :: "(Poll \<Rightarrow> int) \<Rightarrow> store \<Rightarrow> store" where
  "set_max_votes_per_voter f s =
     s\<lparr>polls := map (\<lambda>p. p\<lparr>p_max_votes_per_voter := f p\<rparr>) (polls s)\<rparr>"

section \<open>A store to run the handlers on\<close>

text \<open>
  The scenario of the specification: an election open from 100 to 200, with an active
  poll 1 (candidates 1 and 2) and an inactive poll 2 (candidate 3); voter 1 is verified,
  voter 2 is not. Nobody has voted.
\<close>

definition demo_store :: store where
  "demo_store =
     \<lparr>elections = [\<lparr>e_id = 1, e_created_at = 0, e_title = ''E'', e_description = None,
                     e_start_date = Naive 100, e_end_date = Naive 200, e_is_active = True\<rparr>],
      polls = [\<lparr>p_id = 1, p_created_at = 0, p_election_id = 1, p_title = ''P'',
                 p_description = None, p_max_votes_per_voter = 1, p_is_active = True\<rparr>,
               \<lparr>p_id = 2, p_created_at = 0, p_election_id = 1, p_title = ''Q'',
                 p_description = None, p_max_votes_per_voter = 5, p_is_active = False\<rparr>],
      candidates = [\<lparr>c_id = 1, c_created_at = 0, c_poll_id = 1, c_name = ''C1'', c_description = None\<rparr>,
                    \<lparr>c_id = 2, c_created_at = 0, c_poll_id = 1, c_name = ''C2'', c_description = None\<rparr>,
                    \<lparr>c_id = 3, c_created_at = 0, c_poll_id = 2, c_name = ''C3'', c_description = None\<rparr>],
      voters = [\<lparr>v_id = 1, v_created_at = 0, v_email = ''v1'', v_name = ''V1'', v_is_verified = True\<rparr>,
                \<lparr>v_id = 2, v_created_at = 0, v_email = ''v2'', v_name = ''V2'', v_is_verified = False\<rparr>],
      votes = []\<rparr>"

definition ballot :: "int \<Rightarrow> int \<Rightarrow> int \<Rightarrow> VoteCreate" where
  "ballot p c v = \<lparr>vc_poll_id = p, vc_candidate_id = c, vc_voter_id = v\<rparr>"


text \<open>
  The same store after two requests that both succeed: voter 1 votes for candidate 1 in
  poll 1, then \<open>update_candidate\<close> moves candidate 1 to poll 2.
\<close>

definition moved_store :: store where
  "moved_store =
     snd (update_candidate (snd (create_vote demo_store (\<lambda>_. 150) (ballot 1 1 1))) 1
            \<lparr>cc_poll_id = 2, cc_name = ''C1'', cc_description = None\<rparr>)"

text \<open>
  The store of the scenario with poll 2 active as well, after voter 1 has voted in
  both polls of the election.
\<close>

definition two_polls_store :: store where
  "two_polls_store =
     snd (create_vote
            (snd (create_vote
                    (demo_store\<lparr>polls := map (\<lambda>p. p\<lparr>p_is_active := True\<rparr>) (polls demo_store)\<rparr>)
                    (\<lambda>_. 150) (ballot 1 1 1)))
            (\<lambda>_. 160) (ballot 2 3 1))"

text \<open>
  A poll with 32 votes of 32 verified voters: the first for candidate 1, the others for
  candidate 2.
\<close>

definition tie_store :: store where
  "tie_store =
     \<lparr>elections = [\<lparr>e_id = 1, e_created_at = 0, e_title = ''E'', e_description = None,
                     e_start_date = Naive 100, e_end_date = Naive 200, e_is_active = True\<rparr>],
      polls = [\<lparr>p_id = 1, p_created_at = 0, p_election_id = 1, p_title = ''P'',
                 p_description = None, p_max_votes_per_voter = 1, p_is_active = True\<rparr>],
      candidates = [\<lparr>c_id = 1, c_created_at = 0, c_poll_id = 1, c_name = ''C1'', c_description = None\<rparr>,
                    \<lparr>c_id = 2, c_created_at = 0, c_poll_id = 1, c_name = ''C2'', c_description = None\<rparr>],
      voters = map (\<lambda>i. \<lparr>v_id = i, v_created_at = 0, v_email = ''v'', v_name = ''V'',
                           v_is_verified = True\<rparr>) [1..32],
      votes = map (\<lambda>i. \<lparr>vote_id = i, vote_created_at = 150, vote_poll_id = 1,
                          vote_candidate_id = (if i = 1 then 1 else 2), vote_voter_id = i,
                          vote_voted_at = 150\<rparr>) [1..32]\<rparr>"

section \<open>Lookups\<close>

lemma find_SomeD: "find P xs = Some x \<Longrightarrow> P x \<and> x \<in> set xs"
  by (induction xs) (auto split: if_splits)

lemma Poll_get_SomeD: "Poll_get s i = Some p \<Longrightarrow> p_id p = i \<and> p \<in> set (polls s)"
  unfolding Poll_get_def by (rule find_SomeD)

lemma Candidate_get_SomeD:
  "Candidate_get s i = Some c \<Longrightarrow> c_id c = i \<and> c \<in> set (candidates s)"
  unfolding Candidate_get_def by (rule find_SomeD)

lemma Voter_get_SomeD: "Voter_get s i = Some v \<Longrightarrow> v_id v = i \<and> v \<in> set (voters s)"
  unfolding Voter_get_def by (rule find_SomeD)

lemma Election_get_SomeD:
  "Election_get s i = Some e \<Longrightarrow> e_id e = i \<and> e \<in> set (elections s)"
  unfolding Election_get_def by (rule find_SomeD)

lemma first_eq_None: "first xs = None \<longleftrightarrow> xs = []"
  by (cases xs) (simp_all add: first_def)


lemma fk_ok_poll:
  "fk_ok s \<Longrightarrow> p \<in> set (polls s) \<Longrightarrow> \<exists>e. Election_get s (p_election_id p) = Some e"
  by (auto simp: fk_ok_def list_all_iff)

lemma first_filter_neq_None: "first (filter P xs) \<noteq> None \<longleftrightarrow> (\<exists>x \<in> set xs. P x)"
  by (simp add: first_eq_None filter_empty_conv)



lemma create_vote_checks_found:
  assumes "in_int64 (vc_poll_id vote)" and "in_int64 (vc_candidate_id vote)"
    and "in_int64 (vc_voter_id vote)"
    and "Poll_get s (vc_poll_id vote) = Some poll"
    and "Candidate_get s (vc_candidate_id vote) = Some candidate"
    and "Voter_get s (vc_voter_id vote) = Some voter"
    and "Poll_get s (c_poll_id candidate) = Some candidate_poll"
  shows "create_vote_checks s now vote =
     (if c_poll_id candidate \<noteq> p_id poll then Some (HTTPException 400 Candidate_not_in_poll)
      else if \<exists>v \<in> set (votes s). vote_poll_id v = p_id poll \<and> vote_voter_id v = v_id voter
      then Some (HTTPException 400 Voter_already_voted)
      else if \<not> p_is_active poll then Some (HTTPException 400 Poll_not_active)
      else if \<not> v_is_verified voter then Some (HTTPException 400 Voter_not_verified)
      else (case Election_get s (p_election_id poll) of
              None \<Rightarrow> Some (Unhandled Election_DoesNotExist)
            | Some election \<Rightarrow>
                (case outside_window now election of
                   Inl e \<Rightarrow> Some (Unhandled e)
                 | Inr True \<Rightarrow> Some (HTTPException 400 Election_window_closed)
                 | Inr False \<Rightarrow> None)))"
proof -
  have "p_id candidate_poll = c_poll_id candidate"
    using assms(7) by (simp add: Poll_get_SomeD)
  then show ?thesis
    using assms first_filter_neq_None [of "\<lambda>v. vote_poll_id v = p_id poll \<and> vote_voter_id v = v_id voter" "votes s"]
    by (simp add: create_vote_checks_def)
qed

lemma create_vote_commit_ok:
  assumes "Poll_get s (vc_poll_id vote) = Some poll"
    and "Candidate_get s (vc_candidate_id vote) = Some candidate"
    and "Voter_get s (vc_voter_id vote) = Some voter"
    and "\<not> (\<exists>v \<in> set (votes s). vote_poll_id v = vc_poll_id vote \<and> vote_voter_id v = vc_voter_id vote)"
  shows "create_vote_commit s t1 t2 vote =
     (let row = \<lparr>vote_id = next_id (map vote_id (votes s)), vote_created_at = t1,
                 vote_poll_id = vc_poll_id vote, vote_candidate_id = vc_candidate_id vote,
                 vote_voter_id = vc_voter_id vote, vote_voted_at = t2\<rparr>
      in (Inr (VoteResponse_from_orm row), s\<lparr>votes := votes s @ [row]\<rparr>))"
  using assms by (simp add: create_vote_commit_def Vote_create_def Let_def)

lemma create_vote_unfold:
  "create_vote s clock vote =
     (case create_vote_checks s (clock 0) vote of
        Some err \<Rightarrow> (Inl err, s)
      | None \<Rightarrow> create_vote_commit s (clock 1) (clock 2) vote)"
  by (simp add: create_vote_def create_vote_interleaved_def)

section \<open>The order of the checks of \<open>create_vote\<close>\<close>



lemma demo_lookups:
  "Poll_get demo_store 9 = None"
  "Poll_get demo_store 1 = Some \<lparr>p_id = 1, p_created_at = 0, p_election_id = 1, p_title = ''P'',
                 p_description = None, p_max_votes_per_voter = 1, p_is_active = True\<rparr>"
  "Poll_get demo_store 2 = Some \<lparr>p_id = 2, p_created_at = 0, p_election_id = 1, p_title = ''Q'',
                 p_description = None, p_max_votes_per_voter = 5, p_is_active = False\<rparr>"
  "Candidate_get demo_store 9 = None"
  "Candidate_get demo_store 1 = Some \<lparr>c_id = 1, c_created_at = 0, c_poll_id = 1, c_name = ''C1'', c_description = None\<rparr>"
  "Candidate_get demo_store 2 = Some \<lparr>c_id = 2, c_created_at = 0, c_poll_id = 1, c_name = ''C2'', c_description = None\<rparr>"
  "Candidate_get demo_store 3 = Some \<lparr>c_id = 3, c_created_at = 0, c_poll_id = 2, c_name = ''C3'', c_description = None\<rparr>"
  "Voter_get demo_store 9 = None"
  "Voter_get demo_store 1 = Some \<lparr>v_id = 1, v_created_at = 0, v_email = ''v1'', v_name = ''V1'', v_is_verified = True\<rparr>"
  "Voter_get demo_store 2 = Some \<lparr>v_id = 2, v_created_at = 0, v_email = ''v2'', v_name = ''V2'', v_is_verified = False\<rparr>"
  "Election_get demo_store 1 = Some \<lparr>e_id = 1, e_created_at = 0, e_title = ''E'', e_description = None,
                     e_start_date = Naive 100, e_end_date = Naive 200, e_is_active = True\<rparr>"
  "votes demo_store = []"
  by (simp_all add: demo_store_def Poll_get_def Candidate_get_def Voter_get_def Election_get_def)

lemma in_int64_small [simp]: "in_int64 1" "in_int64 2" "in_int64 3" "in_int64 9"
  by (simp_all add: in_int64_def)






section \<open>The election window\<close>




section \<open>\<open>max_votes_per_voter\<close> plays no part in casting a vote\<close>

lemma find_map_update:
  assumes "\<And>x. P (g x) = P x"
  shows "find P (map g xs) = map_option g (find P xs)"
  using assms by (induction xs) simp_all

lemma set_max_votes_get [simp]:
  "Poll_get (set_max_votes_per_voter f s) i =
     map_option (\<lambda>p. p\<lparr>p_max_votes_per_voter := f p\<rparr>) (Poll_get s i)"
  "Candidate_get (set_max_votes_per_voter f s) i = Candidate_get s i"
  "Voter_get (set_max_votes_per_voter f s) i = Voter_get s i"
  "Election_get (set_max_votes_per_voter f s) i = Election_get s i"
  "votes (set_max_votes_per_voter f s) = votes s"
  by (simp_all add: set_max_votes_per_voter_def Poll_get_def Candidate_get_def Voter_get_def
      Election_get_def find_map_update)

lemma create_vote_checks_set_max_votes:
  "create_vote_checks (set_max_votes_per_voter f s) now vote = create_vote_checks s now vote"
proof (cases "Poll_get s (vc_poll_id vote)")
  case None
  then show ?thesis by (simp add: create_vote_checks_def)
next
  case poll: (Some poll)
  show ?thesis
  proof (cases "Candidate_get s (vc_candidate_id vote)")
    case None
    with poll show ?thesis by (simp add: create_vote_checks_def)
  next
    case cand: (Some candidate)
    show ?thesis
    proof (cases "Voter_get s (vc_voter_id vote)")
      case None
      with poll cand show ?thesis by (simp add: create_vote_checks_def)
    next
      case voter: (Some voter)
      show ?thesis
      proof (cases "Poll_get s (c_poll_id candidate)")
        case None
        with poll cand voter show ?thesis by (simp add: create_vote_checks_def)
      next
        case (Some candidate_poll)
        with poll cand voter show ?thesis
          by (cases "Election_get s (p_election_id poll)")
             (simp_all add: create_vote_checks_def outside_window_def)
      qed
    qed
  qed
qed

lemma create_vote_commit_set_max_votes:
  "create_vote_commit (set_max_votes_per_voter f s) t1 t2 vote =
     (fst (create_vote_commit s t1 t2 vote),
      set_max_votes_per_voter f (snd (create_vote_commit s t1 t2 vote)))"
  by (simp add: create_vote_commit_def Vote_create_def Let_def)
     (simp add: set_max_votes_per_voter_def)

lemma create_vote_set_max_votes:
  "create_vote (set_max_votes_per_voter f s) clock vote =
     (fst (create_vote s clock vote), set_max_votes_per_voter f (snd (create_vote s clock vote)))"
  by (simp add: create_vote_unfold create_vote_checks_set_max_votes
      create_vote_commit_set_max_votes split: option.splits)

lemma create_vote_checks_NoneD:
  assumes "create_vote_checks s now vote = None"
  shows "\<exists>poll candidate voter. Poll_get s (vc_poll_id vote) = Some poll \<and>
     Candidate_get s (vc_candidate_id vote) = Some candidate \<and>
     Voter_get s (vc_voter_id vote) = Some voter \<and>
     in_int64 (vc_poll_id vote) \<and> in_int64 (vc_candidate_id vote) \<and> in_int64 (vc_voter_id vote) \<and>
     \<not> (\<exists>v \<in> set (votes s). vote_poll_id v = vc_poll_id vote \<and> vote_voter_id v = vc_voter_id vote)"
proof -
  from assms have i1: "in_int64 (vc_poll_id vote)"
    by (auto simp: create_vote_checks_def split: if_splits)
  with assms obtain poll where p: "Poll_get s (vc_poll_id vote) = Some poll"
    by (auto simp: create_vote_checks_def split: option.splits)
  from assms i1 p have i2: "in_int64 (vc_candidate_id vote)"
    by (auto simp: create_vote_checks_def split: if_splits)
  with assms i1 p obtain candidate where c: "Candidate_get s (vc_candidate_id vote) = Some candidate"
    by (auto simp: create_vote_checks_def split: option.splits)
  from assms i1 i2 p c have i3: "in_int64 (vc_voter_id vote)"
    by (auto simp: create_vote_checks_def split: if_splits)
  with assms i1 i2 p c obtain voter where v: "Voter_get s (vc_voter_id vote) = Some voter"
    by (auto simp: create_vote_checks_def split: option.splits)
  from assms i1 i2 i3 p c v obtain cp where cp: "Poll_get s (c_poll_id candidate) = Some cp"
    by (auto simp: create_vote_checks_def split: option.splits)
  have pv: "p_id poll = vc_poll_id vote" "v_id voter = vc_voter_id vote"
    using p v by (simp_all add: Poll_get_SomeD Voter_get_SomeD)
  from assms have "\<not> (\<exists>v \<in> set (votes s). vote_poll_id v = p_id poll \<and> vote_voter_id v = v_id voter)"
    unfolding create_vote_checks_found [OF i1 i2 i3 p c v cp] by (auto split: if_splits)
  with p c v i1 i2 i3 pv show ?thesis by simp
qed

lemma create_vote_InrD:
  assumes "create_vote s clock vote = (Inr response, s')"
  shows "\<exists>poll voter row. Poll_get s (vc_poll_id vote) = Some poll \<and>
     Voter_get s (vc_voter_id vote) = Some voter \<and>
     in_int64 (vc_poll_id vote) \<and> in_int64 (vc_voter_id vote) \<and>
     s' = s\<lparr>votes := votes s @ [row]\<rparr> \<and>
     vote_poll_id row = vc_poll_id vote \<and> vote_voter_id row = vc_voter_id vote"
proof -
  from assms have chk: "create_vote_checks s (clock 0) vote = None"
    and com: "create_vote_commit s (clock 1) (clock 2) vote = (Inr response, s')"
    by (auto simp: create_vote_unfold split: option.splits)
  from create_vote_checks_NoneD [OF chk] obtain poll candidate voter
    where g: "Poll_get s (vc_poll_id vote) = Some poll"
      "Candidate_get s (vc_candidate_id vote) = Some candidate"
      "Voter_get s (vc_voter_id vote) = Some voter"
      and i: "in_int64 (vc_poll_id vote)" "in_int64 (vc_voter_id vote)"
      and fresh: "\<not> (\<exists>v \<in> set (votes s). vote_poll_id v = vc_poll_id vote \<and> vote_voter_id v = vc_voter_id vote)"
    by blast
  show ?thesis
    using com g i unfolding create_vote_commit_ok [OF g fresh] by (auto simp: Let_def)
qed

lemma create_vote_sequential_commits:
  "create_vote_checks s (clock 0) vote = None \<Longrightarrow>
     \<exists>response s'. create_vote s clock vote = (Inr response, s')"
  using create_vote_checks_NoneD [of s "clock 0" vote]
  by (auto simp: create_vote_unfold create_vote_commit_ok Let_def)

lemma votes_update_get [simp]:
  "Poll_get (s\<lparr>votes := vs\<rparr>) i = Poll_get s i"
  "Candidate_get (s\<lparr>votes := vs\<rparr>) i = Candidate_get s i"
  "Voter_get (s\<lparr>votes := vs\<rparr>) i = Voter_get s i"
  "Election_get (s\<lparr>votes := vs\<rparr>) i = Election_get s i"
  by (simp_all add: Poll_get_def Candidate_get_def Voter_get_def Election_get_def)

lemma create_vote_again:
  assumes first: "create_vote s clock1 vote1 = (Inr response, s1)"
    and same: "vc_poll_id vote2 = vc_poll_id vote1" "vc_voter_id vote2 = vc_voter_id vote1"
    and cand: "in_int64 (vc_candidate_id vote2)"
      "Candidate_get s1 (vc_candidate_id vote2) = Some candidate"
      "c_poll_id candidate = vc_poll_id vote2"
  shows "create_vote s1 clock2 vote2 = (Inl (HTTPException 400 Voter_already_voted), s1)"
proof -
  from create_vote_InrD [OF first] obtain poll voter row
    where g: "Poll_get s (vc_poll_id vote1) = Some poll" "Voter_get s (vc_voter_id vote1) = Some voter"
      and i: "in_int64 (vc_poll_id vote1)" "in_int64 (vc_voter_id vote1)"
      and s1: "s1 = s\<lparr>votes := votes s @ [row]\<rparr>"
      and row: "vote_poll_id row = vc_poll_id vote1" "vote_voter_id row = vc_voter_id vote1"
    by blast
  have pv: "p_id poll = vc_poll_id vote1" "v_id voter = vc_voter_id vote1"
    using g by (simp_all add: Poll_get_SomeD Voter_get_SomeD)
  have p: "Poll_get s1 (vc_poll_id vote2) = Some poll"
    and v: "Voter_get s1 (vc_voter_id vote2) = Some voter"
    using g same by (simp_all add: s1)
  have i2: "in_int64 (vc_poll_id vote2)" "in_int64 (vc_voter_id vote2)"
    using i same by simp_all
  have cp: "Poll_get s1 (c_poll_id candidate) = Some poll"
    using p cand(3) by simp
  have "\<exists>v \<in> set (votes s1). vote_poll_id v = p_id poll \<and> vote_voter_id v = v_id voter"
    using row pv by (simp add: s1)
  then show ?thesis
    using cand(3) same pv
    by (simp add: create_vote_unfold
        create_vote_checks_found [OF i2(1) cand(1) i2(2) p cand(2) v cp])
qed

text \<open>
  Claim C8, as amended. What \<open>create_vote\<close> answers does not depend on
  \<open>max_votes_per_voter\<close>: with the field set to any values \<open>f\<close> the handler gives the same
  answer and writes the same vote. And once a vote of a voter in a poll has been
  accepted, a further request of that voter in that poll, for any existing candidate of
  that poll, gets the 400 "already voted" exception, whatever values \<open>g\<close> the field has
  by then. (An id that exists in the store fits 64 bits.)
\<close>

theorem create_vote_max_votes_per_voter:
  "create_vote (set_max_votes_per_voter f s) clock vote =
     (fst (create_vote s clock vote), set_max_votes_per_voter f (snd (create_vote s clock vote))) \<and>
   (\<forall>response s1 candidate.
      create_vote s clock vote = (Inr response, s1) \<longrightarrow>
      vc_poll_id vote2 = vc_poll_id vote \<longrightarrow> vc_voter_id vote2 = vc_voter_id vote \<longrightarrow>
      in_int64 (vc_candidate_id vote2) \<longrightarrow>
      Candidate_get s (vc_candidate_id vote2) = Some candidate \<longrightarrow>
      c_poll_id candidate = vc_poll_id vote \<longrightarrow>
      create_vote (set_max_votes_per_voter g s1) clock2 vote2 =
        (Inl (HTTPException 400 Voter_already_voted), set_max_votes_per_voter g s1))"
proof (intro conjI allI impI)
  show "create_vote (set_max_votes_per_voter f s) clock vote =
     (fst (create_vote s clock vote), set_max_votes_per_voter f (snd (create_vote s clock vote)))"
    by (rule create_vote_set_max_votes)
next
  fix response s1 candidate
  assume first: "create_vote s clock vote = (Inr response, s1)"
    and same: "vc_poll_id vote2 = vc_poll_id vote" "vc_voter_id vote2 = vc_voter_id vote"
    and i: "in_int64 (vc_candidate_id vote2)"
    and cand: "Candidate_get s (vc_candidate_id vote2) = Some candidate"
      "c_poll_id candidate = vc_poll_id vote"
  from create_vote_InrD [OF first] obtain row where "s1 = s\<lparr>votes := votes s @ [row]\<rparr>"
    by blast
  with cand have "Candidate_get s1 (vc_candidate_id vote2) = Some candidate" by simp
  from create_vote_again [OF first same i this, of clock2] cand same
  have "create_vote s1 clock2 vote2 = (Inl (HTTPException 400 Voter_already_voted), s1)" by simp
  then show "create_vote (set_max_votes_per_voter g s1) clock2 vote2 =
        (Inl (HTTPException 400 Voter_already_voted), set_max_votes_per_voter g s1)"
    by (simp add: create_vote_set_max_votes)
qed

text \<open>The first vote in the store of the scenario.\<close>

lemma demo_vote_1:
  "create_vote demo_store (\<lambda>_. 150) (ballot 1 1 1) =
     (Inr \<lparr>vr_poll_id = 1, vr_candidate_id = 1, vr_voter_id = 1, vr_id = 1, vr_voted_at = 150\<rparr>,
      demo_store\<lparr>votes := [\<lparr>vote_id = 1, vote_created_at = 150, vote_poll_id = 1,
                 vote_candidate_id = 1, vote_voter_id = 1, vote_voted_at = 150\<rparr>]\<rparr>)"
  by (simp add: create_vote_unfold create_vote_checks_def create_vote_commit_def Vote_create_def
      ballot_def demo_lookups first_def next_id_def VoteResponse_from_orm_def Let_def
      outside_window_def now_lt_column_def now_gt_column_def)

lemma demo_vote_2:
  "create_vote demo_store (\<lambda>_. 150) (ballot 1 2 1) =
     (Inr \<lparr>vr_poll_id = 1, vr_candidate_id = 2, vr_voter_id = 1, vr_id = 1, vr_voted_at = 150\<rparr>,
      demo_store\<lparr>votes := [\<lparr>vote_id = 1, vote_created_at = 150, vote_poll_id = 1,
                 vote_candidate_id = 2, vote_voter_id = 1, vote_voted_at = 150\<rparr>]\<rparr>)"
  by (simp add: create_vote_unfold create_vote_checks_def create_vote_commit_def Vote_create_def
      ballot_def demo_lookups first_def next_id_def VoteResponse_from_orm_def Let_def
      outside_window_def now_lt_column_def now_gt_column_def)

lemma demo_voted_eq:
  "snd (create_vote demo_store (\<lambda>_. 150) (ballot 1 1 1)) =
     demo_store\<lparr>votes := [\<lparr>vote_id = 1, vote_created_at = 150, vote_poll_id = 1,
                 vote_candidate_id = 1, vote_voter_id = 1, vote_voted_at = 150\<rparr>]\<rparr>"
  by (simp add: demo_vote_1)

theorem create_vote_max_votes_per_voter_witness:
  "create_vote (set_max_votes_per_voter (\<lambda>_. 1000) demo_store) (\<lambda>_. 150) (ballot 1 1 1) =
     (Inr \<lparr>vr_poll_id = 1, vr_candidate_id = 1, vr_voter_id = 1, vr_id = 1, vr_voted_at = 150\<rparr>,
      set_max_votes_per_voter (\<lambda>_. 1000) (snd (create_vote demo_store (\<lambda>_. 150) (ballot 1 1 1)))) \<and>
   create_vote (set_max_votes_per_voter (\<lambda>_. 1000) (snd (create_vote demo_store (\<lambda>_. 150) (ballot 1 1 1))))
       (\<lambda>_. 160) (ballot 1 2 1) =
     (Inl (HTTPException 400 Voter_already_voted),
      set_max_votes_per_voter (\<lambda>_. 1000) (snd (create_vote demo_store (\<lambda>_. 150) (ballot 1 1 1))))"
  using create_vote_max_votes_per_voter [where f = "\<lambda>_. 1000" and g = "\<lambda>_. 1000" and s = demo_store
      and clock = "\<lambda>_. 150" and vote = "ballot 1 1 1" and ?vote2.0 = "ballot 1 2 1"
      and ?clock2.0 = "\<lambda>_. 160"]
  unfolding demo_vote_1 by (simp add: ballot_def demo_lookups)

text \<open>
  The claim as stated, with "for any candidate", fails: after the accepted vote of
  voter 1 in poll 1, a request of voter 1 in poll 1 for candidate 3 (of poll 2) gets the
  400 "candidate does not belong to the poll" exception, and one for a candidate 9 that
  does not exist gets the 404, since both checks come before the check for an earlier
  vote.
\<close>

theorem create_vote_max_votes_per_voter_counterexample:
  "fst (create_vote demo_store (\<lambda>_. 150) (ballot 1 1 1)) =
     Inr \<lparr>vr_poll_id = 1, vr_candidate_id = 1, vr_voter_id = 1, vr_id = 1, vr_voted_at = 150\<rparr> \<and>
   fst (create_vote (snd (create_vote demo_store (\<lambda>_. 150) (ballot 1 1 1))) (\<lambda>_. 160) (ballot 1 3 1)) =
     Inl (HTTPException 400 Candidate_not_in_poll) \<and>
   fst (create_vote (snd (create_vote demo_store (\<lambda>_. 150) (ballot 1 1 1))) (\<lambda>_. 160) (ballot 1 9 1)) =
     Inl (HTTPException 404 Candidate_not_found)"
  unfolding demo_voted_eq
  by (simp add: demo_vote_1)
     (simp add: create_vote_unfold create_vote_checks_def ballot_def demo_lookups)

section \<open>A vote committed between the checks and the insert\<close>

lemma create_vote_interleaved_unique:
  assumes "create_vote_checks s (clock 0) vote = None"
    and "\<exists>v \<in> set (votes s'). vote_poll_id v = vc_poll_id vote \<and> vote_voter_id v = vc_voter_id vote"
  shows "create_vote_interleaved s s' clock vote =
     (Inl (Unhandled (IntegrityError UNIQUE_constraint_failed)), s')"
  using assms by (simp add: create_vote_interleaved_def create_vote_commit_def Vote_create_def)

text \<open>
  Claim C1. The claim asks for the 400 "already voted" exception when the check for an
  earlier vote passes and the insert then meets the unique index on \<open>(poll, voter)\<close>.
  The handler does not give it. In the store of the scenario voter 1 asks for
  candidate 1 of poll 1, and every check passes; before the insert, another request of
  voter 1 in poll 1 (for candidate 2) commits. The insert raises \<open>IntegrityError\<close>, no
  \<open>except\<close> clause of \<open>create_vote\<close> catches it, and it leaves the handler unclassified
  (the sibling \<open>create_voter\<close> does turn a unique violation into a 400).
\<close>

theorem create_vote_race_unclassified:
  "create_vote_checks demo_store 150 (ballot 1 1 1) = None \<and>
   create_vote_interleaved demo_store (snd (create_vote demo_store (\<lambda>_. 150) (ballot 1 2 1)))
       (\<lambda>_. 150) (ballot 1 1 1) =
     (Inl (Unhandled (IntegrityError UNIQUE_constraint_failed)),
      snd (create_vote demo_store (\<lambda>_. 150) (ballot 1 2 1))) \<and>
   fst (create_vote_interleaved demo_store (snd (create_vote demo_store (\<lambda>_. 150) (ballot 1 2 1)))
       (\<lambda>_. 150) (ballot 1 1 1))
     \<noteq> Inl (HTTPException 400 Voter_already_voted)"
proof -
  have chk: "create_vote_checks demo_store ((\<lambda>_. 150) (0::nat)) (ballot 1 1 1) = None"
    by (simp add: create_vote_checks_def ballot_def demo_lookups first_def
        outside_window_def now_lt_column_def now_gt_column_def)
  have "\<exists>v \<in> set (votes (snd (create_vote demo_store (\<lambda>_. 150) (ballot 1 2 1)))).
          vote_poll_id v = vc_poll_id (ballot 1 1 1) \<and> vote_voter_id v = vc_voter_id (ballot 1 1 1)"
    unfolding demo_vote_2 by (simp add: ballot_def)
  from create_vote_interleaved_unique [OF chk this] chk show ?thesis by simp
qed

section \<open>The dates of an election\<close>

lemma find_map_replace:
  assumes "find (\<lambda>e. e_id e = i) xs = Some x" and "e_id y = i"
  shows "find (\<lambda>e. e_id e = i) (map (\<lambda>e. if e_id e = i then y else e) xs) = Some y"
  using assms by (induction xs) (auto split: if_splits)

lemma create_election_rejects:
  "py_ge (ec_start_date election) (ec_end_date election) = Inr True \<Longrightarrow>
     create_election s now election = (Inl (HTTPException 400 Start_not_before_end), s)"
  by (simp add: create_election_def)

lemma update_election_rejects:
  "py_ge (ec_start_date election) (ec_end_date election) = Inr True \<Longrightarrow>
     \<exists>err. update_election s i election = (Inl err, s)"
  by (simp add: update_election_def split: option.splits)

lemma create_election_raises:
  "py_ge (ec_start_date election) (ec_end_date election) = Inl e \<Longrightarrow>
     create_election s now election = (Inl (Unhandled e), s)"
  by (simp add: create_election_def)

lemma update_election_raises:
  "py_ge (ec_start_date election) (ec_end_date election) = Inl e \<Longrightarrow>
     \<exists>err. update_election s i election = (Inl err, s)"
  by (simp add: update_election_def split: option.splits)

lemma create_election_accepts:
  assumes "py_ge (ec_start_date election) (ec_end_date election) = Inr False"
  shows "\<exists>row. create_election s now election = (Inr row, s\<lparr>elections := elections s @ [row]\<rparr>) \<and>
     e_start_date row = ec_start_date election \<and> e_end_date row = ec_end_date election"
  using assms by (simp add: create_election_def Let_def)

lemma update_election_accepts:
  assumes "py_ge (ec_start_date election) (ec_end_date election) = Inr False"
    and "Election_get s i = Some old"
  shows "\<exists>row. fst (update_election s i election) = Inr row \<and>
     Election_get (snd (update_election s i election)) i = Some row \<and>
     e_start_date row = ec_start_date election \<and> e_end_date row = ec_end_date election"
proof -
  have i: "e_id old = i" using assms(2) by (simp add: Election_get_SomeD)
  let ?row = "old\<lparr>e_title := ec_title election, e_description := ec_description election,
                  e_start_date := ec_start_date election, e_end_date := ec_end_date election,
                  e_is_active := ec_is_active election\<rparr>"
  have "find (\<lambda>e. e_id e = i) (map (\<lambda>e. if e_id e = i then ?row else e) (elections s)) = Some ?row"
    using assms(2) i by (intro find_map_replace) (simp_all add: Election_get_def)
  then show ?thesis
    using assms i by (simp add: update_election_def Let_def Election_get_def)
qed

lemma create_election_dates_ok:
  "dates_ok s \<Longrightarrow> dates_ok (snd (create_election s now election))"
  by (cases "py_ge (ec_start_date election) (ec_end_date election)")
     (auto simp: dates_ok_def create_election_def Let_def split: bool.splits)

lemma update_election_dates_ok:
  "dates_ok s \<Longrightarrow> dates_ok (snd (update_election s i election))"
  by (cases "py_ge (ec_start_date election) (ec_end_date election)")
     (auto simp: dates_ok_def update_election_def Let_def list_all_iff
        split: option.splits bool.splits)

lemma py_ge_Naive [simp]: "py_ge (Naive a) (Naive b) = Inr (b \<le> a)"
  by (simp add: py_ge_def)

lemma py_ge_Aware [simp]: "py_ge (Aware a) (Aware b) = Inr (b \<le> a)"
  by (simp add: py_ge_def)

text \<open>
  Claim C9. When \<open>start_date >= end_date\<close>, \<open>create_election\<close> and \<open>update_election\<close> end
  in an exception and leave the store as it was. When \<open>start_date < end_date\<close>,
  \<open>create_election\<close> stores the election and \<open>update_election\<close> rewrites the election it
  is given (which must exist) with the new dates. So both handlers keep the property
  that every stored election starts before it ends. (When one date is naive and the
  other timezone-aware, the comparison itself raises, and nothing is stored.)
\<close>

theorem election_dates_checked:
  "(py_ge (ec_start_date election) (ec_end_date election) = Inr True \<longrightarrow>
      create_election s now election = (Inl (HTTPException 400 Start_not_before_end), s) \<and>
      (\<exists>err. update_election s i election = (Inl err, s))) \<and>
   (py_ge (ec_start_date election) (ec_end_date election) = Inr False \<longrightarrow>
      (\<exists>row. create_election s now election = (Inr row, s\<lparr>elections := elections s @ [row]\<rparr>) \<and>
         e_start_date row = ec_start_date election \<and> e_end_date row = ec_end_date election) \<and>
      (\<forall>old. Election_get s i = Some old \<longrightarrow>
         (\<exists>row. fst (update_election s i election) = Inr row \<and>
            Election_get (snd (update_election s i election)) i = Some row \<and>
            e_start_date row = ec_start_date election \<and> e_end_date row = ec_end_date election))) \<and>
   (\<forall>e. py_ge (ec_start_date election) (ec_end_date election) = Inl e \<longrightarrow>
      create_election s now election = (Inl (Unhandled e), s) \<and>
      (\<exists>err. update_election s i election = (Inl err, s))) \<and>
   (\<forall>a b. py_ge (Naive a) (Naive b) = Inr (b \<le> a) \<and> py_ge (Aware a) (Aware b) = Inr (b \<le> a)) \<and>
   (dates_ok s \<longrightarrow>
      dates_ok (snd (create_election s now election)) \<and>
      dates_ok (snd (update_election s i election)))"
  using create_election_rejects [of election s now] update_election_rejects [of election s i]
    create_election_accepts [of election s now] update_election_accepts [of election s i]
    create_election_raises [of election _ s now] update_election_raises [of election _ s i]
    create_election_dates_ok [of s now election] update_election_dates_ok [of s i election]
  by (simp only: py_ge_Naive py_ge_Aware) blast

theorem election_dates_checked_witness:
  "create_election demo_store 50
       \<lparr>ec_title = ''X'', ec_description = None, ec_start_date = Naive 300, ec_end_date = Naive 300,
        ec_is_active = True\<rparr> =
     (Inl (HTTPException 400 Start_not_before_end), demo_store) \<and>
   update_election demo_store 1
       \<lparr>ec_title = ''X'', ec_description = None, ec_start_date = Naive 300, ec_end_date = Naive 300,
        ec_is_active = True\<rparr> =
     (Inl (HTTPException 400 Start_not_before_end), demo_store) \<and>
   fst (create_election demo_store 50
       \<lparr>ec_title = ''X'', ec_description = None, ec_start_date = Naive 300, ec_end_date = Naive 301,
        ec_is_active = True\<rparr>) =
     Inr \<lparr>e_id = 2, e_created_at = 50, e_title = ''X'', e_description = None,
          e_start_date = Naive 300, e_end_date = Naive 301, e_is_active = True\<rparr> \<and>
   fst (update_election demo_store 1
       \<lparr>ec_title = ''X'', ec_description = None, ec_start_date = Naive 300, ec_end_date = Naive 301,
        ec_is_active = True\<rparr>) =
     Inr \<lparr>e_id = 1, e_created_at = 0, e_title = ''X'', e_description = None,
          e_start_date = Naive 300, e_end_date = Naive 301, e_is_active = True\<rparr> \<and>
   dates_ok demo_store \<and>
   dates_ok (snd (update_election demo_store 1
       \<lparr>ec_title = ''X'', ec_description = None, ec_start_date = Naive 300, ec_end_date = Naive 301,
        ec_is_active = True\<rparr>))"
proof -
  have d: "dates_ok demo_store" by (simp add: dates_ok_def demo_store_def)
  have e: "elections demo_store = [\<lparr>e_id = 1, e_created_at = 0, e_title = ''E'', e_description = None,
                     e_start_date = Naive 100, e_end_date = Naive 200, e_is_active = True\<rparr>]"
    by (simp add: demo_store_def)
  show ?thesis
    using d election_dates_checked [of "\<lparr>ec_title = ''X'', ec_description = None,
          ec_start_date = Naive 300, ec_end_date = Naive 300, ec_is_active = True\<rparr>" demo_store 50 1]
      election_dates_checked [of "\<lparr>ec_title = ''X'', ec_description = None,
          ec_start_date = Naive 300, ec_end_date = Naive 301, ec_is_active = True\<rparr>" demo_store 50 1]
    by (simp add: demo_lookups)
       (simp add: create_election_def update_election_def demo_lookups e next_id_def Let_def)
qed

section \<open>The loop of \<open>get_poll_results\<close>\<close>

lemma percentage_expr_Inr:
  "percentage_expr v n =
     Inr (if 0 < n then PyFloat (py_float_mul_int (binary64 (of_nat v / of_nat n)) 100) else PyInt 0)"
  by (simp add: percentage_expr_def py_truediv_def)

lemma result_entry_Inr:
  "result_entry s poll c =
     Inr \<lparr>r_candidate_id = c_id c, r_candidate_name = c_name c,
          r_candidate_description = c_description c,
          r_votes = count_votes_candidate s c,
          r_percentage = py_round2
            (if 0 < count_votes_poll s poll
             then PyFloat (py_float_mul_int
                    (binary64 (of_nat (count_votes_candidate s c) / of_nat (count_votes_poll s poll))) 100)
             else PyInt 0)\<rparr>"
  by (simp add: result_entry_def percentage_expr_Inr Let_def)

lemma result_entry_fields [simp]:
  "r_votes (projr (result_entry s poll c)) = count_votes_candidate s c"
  "r_candidate_id (projr (result_entry s poll c)) = c_id c"
  by (simp_all add: result_entry_Inr)

lemma results_loop_eq:
  "results_loop s poll cs results total_votes =
     Inr (results @ map (\<lambda>c. projr (result_entry s poll c)) cs,
          total_votes + sum_list (map (count_votes_candidate s) cs))"
proof (induction cs arbitrary: results total_votes)
  case Nil
  show ?case by simp
next
  case (Cons c cs)
  obtain e where e: "result_entry s poll c = Inr e"
    by (simp add: result_entry_Inr)
  have "r_votes e = count_votes_candidate s c"
    using result_entry_fields(1) [of s poll c] e by simp
  with e Cons show ?case by simp
qed

lemma get_poll_results_eq:
  assumes "Poll_get s poll_id = Some poll"
  shows "get_poll_results s poll_id =
     Inr \<lparr>pr_poll_id = p_id poll, pr_poll_title = p_title poll,
          pr_total_votes = sum_list (map (count_votes_candidate s) (poll_candidates s poll)),
          pr_unique_voters = count_votes_poll s poll,
          pr_results = sort_reverse r_votes
            (map (\<lambda>c. projr (result_entry s poll c)) (poll_candidates s poll))\<rparr>"
  using assms by (simp add: get_poll_results_def results_loop_eq)

section \<open>Sorting by votes, most votes first\<close>

lemma mset_sort_reverse [simp]: "mset (sort_reverse f xs) = mset xs"
  by (simp add: sort_reverse_def)

lemma sort_reverse_stable:
  "filter (\<lambda>x. f x = k) (sort_reverse f xs) = filter (\<lambda>x. f x = k) xs"
  by (simp add: sort_reverse_def rev_filter [symmetric] sort_key_stable)

lemma sort_reverse_descending: "sorted (rev (map f (sort_reverse f xs)))"
  by (simp add: sort_reverse_def rev_map)

lemma sum_list_sort_reverse:
  fixes g :: "'a \<Rightarrow> nat"
  shows "sum_list (map g (sort_reverse f xs)) = sum_list (map g xs)"
proof -
  have "mset (map g (sort_reverse f xs)) = mset (map g xs)" by simp
  then show ?thesis by (metis sum_mset_sum_list)
qed

section \<open>Counting votes by candidate and by poll\<close>

lemma length_filter_disj:
  assumes "\<And>x. x \<in> set xs \<Longrightarrow> \<not> (P x \<and> Q x)"
  shows "length (filter (\<lambda>x. P x \<or> Q x) xs) = length (filter P xs) + length (filter Q xs)"
  using assms by (induction xs) auto

lemma sum_counts_by_key:
  assumes "distinct (map key cs)"
  shows "sum_list (map (\<lambda>c. length (filter (\<lambda>v. ref v = key c) vs)) cs) =
         length (filter (\<lambda>v. ref v \<in> key ` set cs) vs)"
  using assms
proof (induction cs)
  case Nil
  show ?case by simp
next
  case (Cons c cs)
  have "length (filter (\<lambda>v. ref v = key c \<or> ref v \<in> key ` set cs) vs) =
        length (filter (\<lambda>v. ref v = key c) vs) + length (filter (\<lambda>v. ref v \<in> key ` set cs) vs)"
    using Cons.prems by (intro length_filter_disj) auto
  with Cons show ?case by simp
qed

lemma find_distinct:
  assumes "distinct (map key xs)" and "x \<in> set xs"
  shows "find (\<lambda>y. key y = key x) xs = Some x"
  using assms by (induction xs) (auto simp: image_iff)

lemma votes_of_poll_candidates:
  assumes pk: "distinct (map c_id (candidates s))" and ok: "votes_match_candidates s"
    and v: "v \<in> set (votes s)"
  shows "vote_candidate_id v \<in> c_id ` set (poll_candidates s poll) \<longleftrightarrow> vote_poll_id v = p_id poll"
proof -
  from ok v obtain c where c: "Candidate_get s (vote_candidate_id v) = Some c"
    and cp: "c_poll_id c = vote_poll_id v"
    by (auto simp: votes_match_candidates_def list_all_iff split: option.splits)
  from c have cin: "c \<in> set (candidates s)" and cid: "c_id c = vote_candidate_id v"
    by (simp_all add: Candidate_get_SomeD)
  show ?thesis
  proof
    assume "vote_candidate_id v \<in> c_id ` set (poll_candidates s poll)"
    then obtain c' where c': "c' \<in> set (candidates s)" "c_poll_id c' = p_id poll"
      "c_id c' = vote_candidate_id v"
      by (auto simp: poll_candidates_def)
    from find_distinct [OF pk c'(1)] c c'(3) have "c' = c"
      by (simp add: Candidate_get_def)
    with c'(2) cp show "vote_poll_id v = p_id poll" by simp
  next
    assume "vote_poll_id v = p_id poll"
    with cin cp cid show "vote_candidate_id v \<in> c_id ` set (poll_candidates s poll)"
      by (force simp: poll_candidates_def)
  qed
qed

lemma sum_candidate_votes:
  assumes pk: "distinct (map c_id (candidates s))" and ok: "votes_match_candidates s"
  shows "sum_list (map (count_votes_candidate s) (poll_candidates s poll)) = count_votes_poll s poll"
proof -
  have d: "distinct (map c_id (poll_candidates s poll))"
    using pk by (simp add: poll_candidates_def distinct_map_filter)
  have "sum_list (map (count_votes_candidate s) (poll_candidates s poll)) =
        length (filter (\<lambda>v. vote_candidate_id v \<in> c_id ` set (poll_candidates s poll)) (votes s))"
    unfolding count_votes_candidate_def by (rule sum_counts_by_key [OF d])
  also have "\<dots> = length (filter (\<lambda>v. vote_poll_id v = p_id poll) (votes s))"
    using votes_of_poll_candidates [OF pk ok]
    by (intro arg_cong [where f = length] filter_cong) auto
  finally show ?thesis by (simp add: count_votes_poll_def)
qed

section \<open>The totals of \<open>get_poll_results\<close>\<close>

text \<open>The two requests that lead to \<open>moved_store\<close> succeed.\<close>

lemma moved_store_eq:
  "moved_store =
     demo_store
       \<lparr>candidates := [\<lparr>c_id = 1, c_created_at = 0, c_poll_id = 2, c_name = ''C1'', c_description = None\<rparr>,
                    \<lparr>c_id = 2, c_created_at = 0, c_poll_id = 1, c_name = ''C2'', c_description = None\<rparr>,
                    \<lparr>c_id = 3, c_created_at = 0, c_poll_id = 2, c_name = ''C3'', c_description = None\<rparr>],
        votes := [\<lparr>vote_id = 1, vote_created_at = 150, vote_poll_id = 1,
                 vote_candidate_id = 1, vote_voter_id = 1, vote_voted_at = 150\<rparr>]\<rparr>"
  unfolding moved_store_def demo_voted_eq
  by (simp add: update_candidate_def Candidate_get_def Poll_get_def demo_store_def Let_def)

lemma moved_store_reached:
  "fst (create_vote demo_store (\<lambda>_. 150) (ballot 1 1 1)) =
     Inr \<lparr>vr_poll_id = 1, vr_candidate_id = 1, vr_voter_id = 1, vr_id = 1, vr_voted_at = 150\<rparr> \<and>
   fst (update_candidate (snd (create_vote demo_store (\<lambda>_. 150) (ballot 1 1 1))) 1
       \<lparr>cc_poll_id = 2, cc_name = ''C1'', cc_description = None\<rparr>) =
     Inr \<lparr>c_id = 1, c_created_at = 0, c_poll_id = 2, c_name = ''C1'', c_description = None\<rparr>"
  unfolding demo_voted_eq
  by (simp add: demo_vote_1)
     (simp add: update_candidate_def Candidate_get_def Poll_get_def demo_store_def Let_def)

lemma moved_store_poll_results:
  "get_poll_results moved_store 2 =
     Inr \<lparr>pr_poll_id = 2, pr_poll_title = ''Q'', pr_total_votes = 1, pr_unique_voters = 0,
          pr_results =
            [\<lparr>r_candidate_id = 1, r_candidate_name = ''C1'', r_candidate_description = None,
              r_votes = 1, r_percentage = PyInt 0\<rparr>,
             \<lparr>r_candidate_id = 3, r_candidate_name = ''C3'', r_candidate_description = None,
              r_votes = 0, r_percentage = PyInt 0\<rparr>]\<rparr>"
  unfolding moved_store_eq
  by (simp add: get_poll_results_def Poll_get_def demo_store_def poll_candidates_def
      result_entry_def percentage_expr_def count_votes_candidate_def count_votes_poll_def
      py_round2_def sort_reverse_def)


text \<open>
  Claim C4, as amended. For every existing poll \<open>get_poll_results\<close> returns a response
  whose \<open>total_votes\<close> is the sum of the \<open>votes\<close> of its entries. Its \<open>unique_voters\<close>
  equals \<open>total_votes\<close> in a store where candidate ids are unique and every vote is for a
  candidate of the poll it is cast in.
\<close>

theorem get_poll_results_totals:
  assumes "Poll_get s poll_id = Some poll"
  shows "\<exists>r. get_poll_results s poll_id = Inr r \<and>
           pr_total_votes r = sum_list (map r_votes (pr_results r)) \<and>
           (distinct (map c_id (candidates s)) \<and> votes_match_candidates s \<longrightarrow>
              pr_unique_voters r = pr_total_votes r)"
proof -
  have "sum_list (map r_votes (sort_reverse r_votes
          (map (\<lambda>c. projr (result_entry s poll c)) (poll_candidates s poll)))) =
        sum_list (map (count_votes_candidate s) (poll_candidates s poll))"
    by (simp add: sum_list_sort_reverse comp_def)
  then show ?thesis
    by (simp add: get_poll_results_eq [OF assms] sum_candidate_votes)
qed

theorem get_poll_results_totals_witness:
  "\<exists>r. get_poll_results (snd (create_vote demo_store (\<lambda>_. 150) (ballot 1 1 1))) 1 = Inr r \<and>
        pr_total_votes r = sum_list (map r_votes (pr_results r)) \<and>
        pr_unique_voters r = pr_total_votes r"
proof -
  let ?s = "snd (create_vote demo_store (\<lambda>_. 150) (ballot 1 1 1))"
  have p: "Poll_get ?s 1 = Some \<lparr>p_id = 1, p_created_at = 0, p_election_id = 1, p_title = ''P'',
                 p_description = None, p_max_votes_per_voter = 1, p_is_active = True\<rparr>"
    unfolding demo_voted_eq by (simp add: demo_lookups)
  have "distinct (map c_id (candidates ?s))" "votes_match_candidates ?s"
    unfolding demo_voted_eq
    by (simp_all add: votes_match_candidates_def Candidate_get_def demo_store_def)
  with get_poll_results_totals [OF p] show ?thesis by blast
qed

text \<open>
  The claim as stated fails. In \<open>moved_store\<close>, reached by two successful requests,
  the only vote was cast in poll 1 for candidate 1, who has since been moved to poll 2:
  the results of poll 2 have \<open>total_votes = 1\<close> and \<open>unique_voters = 0\<close>.
\<close>

theorem get_poll_results_totals_counterexample:
  "fst (create_vote demo_store (\<lambda>_. 150) (ballot 1 1 1)) =
     Inr \<lparr>vr_poll_id = 1, vr_candidate_id = 1, vr_voter_id = 1, vr_id = 1, vr_voted_at = 150\<rparr> \<and>
   fst (update_candidate (snd (create_vote demo_store (\<lambda>_. 150) (ballot 1 1 1))) 1
       \<lparr>cc_poll_id = 2, cc_name = ''C1'', cc_description = None\<rparr>) =
     Inr \<lparr>c_id = 1, c_created_at = 0, c_poll_id = 2, c_name = ''C1'', c_description = None\<rparr> \<and>
   get_poll_results moved_store 2 =
     Inr \<lparr>pr_poll_id = 2, pr_poll_title = ''Q'', pr_total_votes = 1, pr_unique_voters = 0,
          pr_results =
            [\<lparr>r_candidate_id = 1, r_candidate_name = ''C1'', r_candidate_description = None,
              r_votes = 1, r_percentage = PyInt 0\<rparr>,
             \<lparr>r_candidate_id = 3, r_candidate_name = ''C3'', r_candidate_description = None,
              r_votes = 0, r_percentage = PyInt 0\<rparr>]\<rparr> \<and>
   pr_unique_voters (projr (get_poll_results moved_store 2)) \<noteq>
     pr_total_votes (projr (get_poll_results moved_store 2))"
  using moved_store_reached by (simp add: moved_store_poll_results)

section \<open>A poll without votes\<close>

lemma count_votes_candidate_zero:
  assumes "distinct (map c_id (candidates s))" and "votes_match_candidates s"
    and "count_votes_poll s poll = 0" and "c \<in> set (poll_candidates s poll)"
  shows "count_votes_candidate s c = 0"
proof -
  have "sum_list (map (count_votes_candidate s) (poll_candidates s poll)) = 0"
    using sum_candidate_votes [OF assms(1,2), of poll] assms(3) by simp
  with assms(4) show ?thesis by (simp add: sum_list_eq_0_iff)
qed

text \<open>
  Claim C6, as amended. For every existing poll with no Vote rows, \<open>get_poll_results\<close>
  raises nothing (no division by zero in particular) and returns one entry for each
  candidate of the poll, each with \<open>percentage\<close> the int 0, and \<open>unique_voters = 0\<close>.
  Every entry has \<open>votes = 0\<close>, and \<open>total_votes = 0\<close>, in a store where candidate ids
  are unique and every vote is for a candidate of the poll it is cast in.
\<close>

theorem get_poll_results_no_votes:
  assumes "Poll_get s poll_id = Some poll" and "count_votes_poll s poll = 0"
  shows "\<exists>r. get_poll_results s poll_id = Inr r \<and>
           mset (map r_candidate_id (pr_results r)) = mset (map c_id (poll_candidates s poll)) \<and>
           (\<forall>e \<in> set (pr_results r). r_percentage e = PyInt 0) \<and>
           pr_unique_voters r = 0 \<and>
           (distinct (map c_id (candidates s)) \<and> votes_match_candidates s \<longrightarrow>
              (\<forall>e \<in> set (pr_results r). r_votes e = 0) \<and> pr_total_votes r = 0)"
proof -
  let ?entries = "map (\<lambda>c. projr (result_entry s poll c)) (poll_candidates s poll)"
  have "map r_candidate_id ?entries = map c_id (poll_candidates s poll)"
    by simp
  then have ids: "mset (map r_candidate_id (sort_reverse r_votes ?entries)) =
             mset (map c_id (poll_candidates s poll))"
    by (metis mset_map mset_sort_reverse)
  have set_eq: "set (sort_reverse r_votes ?entries) = set ?entries"
    by (metis mset_sort_reverse set_mset_mset)
  have pct: "\<forall>e \<in> set ?entries. r_percentage e = PyInt 0"
    using assms(2) by (auto simp: result_entry_Inr py_round2_def)
  have zero: "\<forall>e \<in> set ?entries. r_votes e = 0"
    if "distinct (map c_id (candidates s))" "votes_match_candidates s"
    using count_votes_candidate_zero [OF that assms(2)] by auto
  have total: "sum_list (map (count_votes_candidate s) (poll_candidates s poll)) = 0"
    if "distinct (map c_id (candidates s))" "votes_match_candidates s"
    using sum_candidate_votes [OF that, of poll] assms(2) by simp
  show ?thesis
    unfolding get_poll_results_eq [OF assms(1)]
    using ids pct zero total assms(2) by (simp add: set_eq)
qed

theorem get_poll_results_no_votes_witness:
  "\<exists>r. get_poll_results demo_store 2 = Inr r \<and>
        mset (map r_candidate_id (pr_results r)) = {#3#} \<and>
        list_all (\<lambda>e. r_percentage e = PyInt 0 \<and> r_votes e = 0) (pr_results r) \<and>
        pr_unique_voters r = 0 \<and> pr_total_votes r = 0"
proof -
  let ?poll = "\<lparr>p_id = 2, p_created_at = 0, p_election_id = 1, p_title = ''Q'',
                 p_description = None, p_max_votes_per_voter = 5, p_is_active = False\<rparr>"
  have p: "Poll_get demo_store 2 = Some ?poll" by (simp add: demo_lookups)
  have z: "count_votes_poll demo_store ?poll = 0"
    by (simp add: count_votes_poll_def demo_lookups)
  have c: "map c_id (poll_candidates demo_store ?poll) = [3]"
    by (simp add: poll_candidates_def demo_store_def)
  have "distinct (map c_id (candidates demo_store))" "votes_match_candidates demo_store"
    by (simp_all add: votes_match_candidates_def demo_store_def)
  with get_poll_results_no_votes [OF p z] c show ?thesis
    by (auto simp: list_all_iff)
qed

text \<open>
  The claim as stated fails in \<open>moved_store\<close>: poll 2 has no Vote rows, and its results
  show one vote for candidate 1 and \<open>total_votes = 1\<close>.
\<close>

theorem get_poll_results_no_votes_counterexample:
  "Poll_get moved_store 2 =
     Some \<lparr>p_id = 2, p_created_at = 0, p_election_id = 1, p_title = ''Q'',
           p_description = None, p_max_votes_per_voter = 5, p_is_active = False\<rparr> \<and>
   count_votes_poll moved_store
     \<lparr>p_id = 2, p_created_at = 0, p_election_id = 1, p_title = ''Q'',
      p_description = None, p_max_votes_per_voter = 5, p_is_active = False\<rparr> = 0 \<and>
   map r_votes (pr_results (projr (get_poll_results moved_store 2))) = [1, 0] \<and>
   pr_total_votes (projr (get_poll_results moved_store 2)) = 1"
  by (simp add: moved_store_poll_results)
     (simp add: moved_store_eq Poll_get_def count_votes_poll_def demo_store_def)

section \<open>The order of the results\<close>

text \<open>
  Claim C10. The results of \<open>get_poll_results\<close> are ordered by votes, most votes first,
  and the sort is stable: for every number of votes \<open>k\<close>, the candidates with \<open>k\<close> votes
  appear in the results in the order in which \<open>poll.candidates\<close> lists them (the order of
  the candidates table). The results are a function of the store.
\<close>

theorem get_poll_results_stable:
  assumes "Poll_get s poll_id = Some poll"
  shows "\<exists>r. get_poll_results s poll_id = Inr r \<and>
           sorted (rev (map r_votes (pr_results r))) \<and>
           (\<forall>k. map r_candidate_id (filter (\<lambda>e. r_votes e = k) (pr_results r)) =
                map c_id (filter (\<lambda>c. count_votes_candidate s c = k) (poll_candidates s poll)))"
proof -
  let ?entries = "map (\<lambda>c. projr (result_entry s poll c)) (poll_candidates s poll)"
  have "map r_candidate_id (filter (\<lambda>e. r_votes e = k) (sort_reverse r_votes ?entries)) =
        map c_id (filter (\<lambda>c. count_votes_candidate s c = k) (poll_candidates s poll))" for k
    by (simp add: sort_reverse_stable filter_map comp_def)
  then show ?thesis
    unfolding get_poll_results_eq [OF assms]
    by (simp add: sort_reverse_descending)
qed

theorem get_poll_results_stable_witness:
  "\<exists>r. get_poll_results demo_store 1 = Inr r \<and>
        sorted (rev (map r_votes (pr_results r))) \<and>
        map r_candidate_id (filter (\<lambda>e. r_votes e = 0) (pr_results r)) = [1, 2]"
proof -
  let ?poll = "\<lparr>p_id = 1, p_created_at = 0, p_election_id = 1, p_title = ''P'',
                 p_description = None, p_max_votes_per_voter = 1, p_is_active = True\<rparr>"
  have p: "Poll_get demo_store 1 = Some ?poll" by (simp add: demo_lookups)
  have c: "map c_id (filter (\<lambda>c. count_votes_candidate demo_store c = 0)
             (poll_candidates demo_store ?poll)) = [1, 2]"
    by (simp add: poll_candidates_def count_votes_candidate_def demo_store_def)
  from get_poll_results_stable [OF p] obtain r
    where r: "get_poll_results demo_store 1 = Inr r" "sorted (rev (map r_votes (pr_results r)))"
      "\<forall>k. map r_candidate_id (filter (\<lambda>e. r_votes e = k) (pr_results r)) =
         map c_id (filter (\<lambda>c. count_votes_candidate demo_store c = k) (poll_candidates demo_store ?poll))"
    by blast
  from r(3) c have "map r_candidate_id (filter (\<lambda>e. r_votes e = 0) (pr_results r)) = [1, 2]"
    by simp
  with r(1,2) show ?thesis by (intro exI [of _ r]) simp
qed

section \<open>Election statistics\<close>

lemma stats_loop_eq:
  "stats_loop s ps polls_stats total_votes =
     (polls_stats @ map (\<lambda>p. \<lparr>ps_poll_id = p_id p, ps_poll_title = p_title p,
                                ps_votes_count = count_votes_poll s p,
                                ps_candidates_count = length (poll_candidates s p)\<rparr>) ps,
      total_votes + sum_list (map (count_votes_poll s) ps))"
  by (induction ps arbitrary: polls_stats total_votes) (simp_all add: Let_def)

lemma sum_poll_votes:
  assumes "distinct (map p_id (polls s))"
  shows "sum_list (map (count_votes_poll s) (election_polls s election)) =
         length (filter (\<lambda>v. vote_poll_id v \<in> p_id ` set (election_polls s election)) (votes s))"
proof -
  have "distinct (map p_id (election_polls s election))"
    using assms by (simp add: election_polls_def distinct_map_filter)
  then show ?thesis
    unfolding count_votes_poll_def by (rule sum_counts_by_key)
qed

text \<open>
  Claim C7. For every existing election (poll ids being unique, as primary keys are),
  \<open>get_election_stats\<close> returns \<open>total_votes\<close> as the sum over the election's polls of
  the number of Vote rows of the poll, and \<open>total_unique_voters\<close> as the number of Vote
  rows whose poll is a poll of the election: rows are counted, voters are not
  deduplicated, and the two totals are equal.
\<close>

theorem get_election_stats_totals:
  assumes "Election_get s election_id = Some election" and "distinct (map p_id (polls s))"
  shows "\<exists>r. get_election_stats s election_id = Inr r \<and>
           es_total_votes r = sum_list (map (count_votes_poll s) (election_polls s election)) \<and>
           es_total_unique_voters r =
             length (filter (\<lambda>v. \<exists>p \<in> set (election_polls s election). vote_poll_id v = p_id p) (votes s)) \<and>
           es_total_unique_voters r = es_total_votes r"
proof -
  have eq: "(\<lambda>v. vote_poll_id v \<in> p_id ` set (election_polls s election)) =
        (\<lambda>v. \<exists>p \<in> set (election_polls s election). vote_poll_id v = p_id p)"
    by auto
  show ?thesis
    using assms(1) sum_poll_votes [OF assms(2), of election]
    by (simp add: get_election_stats_def stats_loop_eq Let_def eq)
qed


text \<open>In \<open>two_polls_store\<close> voter 1 has voted in both polls of election 1.\<close>

lemma two_polls_store_votes:
  "votes two_polls_store =
     [\<lparr>vote_id = 1, vote_created_at = 150, vote_poll_id = 1, vote_candidate_id = 1,
       vote_voter_id = 1, vote_voted_at = 150\<rparr>,
      \<lparr>vote_id = 2, vote_created_at = 160, vote_poll_id = 2, vote_candidate_id = 3,
       vote_voter_id = 1, vote_voted_at = 160\<rparr>]"
  "polls two_polls_store = map (\<lambda>p. p\<lparr>p_is_active := True\<rparr>) (polls demo_store)"
  "elections two_polls_store = elections demo_store"
  by (simp_all add: two_polls_store_def create_vote_unfold create_vote_checks_def
      create_vote_commit_def Vote_create_def Poll_get_def Candidate_get_def Voter_get_def
      Election_get_def demo_store_def ballot_def first_def next_id_def Let_def in_int64_def
      outside_window_def now_lt_column_def now_gt_column_def)

theorem get_election_stats_totals_witness:
  "map vote_voter_id (votes two_polls_store) = [1, 1] \<and>
   (\<exists>r. get_election_stats two_polls_store 1 = Inr r \<and>
        es_total_votes r = 2 \<and> es_total_unique_voters r = 2)"
proof -
  let ?election = "\<lparr>e_id = 1, e_created_at = 0, e_title = ''E'', e_description = None,
                     e_start_date = Naive 100, e_end_date = Naive 200, e_is_active = True\<rparr>"
  have e: "Election_get two_polls_store 1 = Some ?election"
    by (simp add: Election_get_def two_polls_store_votes demo_store_def)
  have d: "distinct (map p_id (polls two_polls_store))"
    by (simp add: two_polls_store_votes demo_store_def)
  have n: "sum_list (map (count_votes_poll two_polls_store) (election_polls two_polls_store ?election)) = 2"
    by (simp add: election_polls_def count_votes_poll_def two_polls_store_votes demo_store_def)
  from get_election_stats_totals [OF e d] n show ?thesis
    by (auto simp: two_polls_store_votes)
qed

section \<open>The percentage\<close>

lemma round_half_even_cases:
  fixes x :: rat
  defines "f \<equiv> \<lfloor>x\<rfloor>"
  shows "of_int f \<le> x" and "x < of_int f + 1"
    and "round_half_even x =
           (if x - of_int f < 1 / 2 then f
            else if 1 / 2 < x - of_int f then f + 1 else if even f then f else f + 1)"
  unfolding f_def by (linarith, linarith, simp add: round_half_even_def Let_def)

lemma round_half_even_nearest:
  "\<bar>of_int (round_half_even x) - x\<bar> \<le> 1 / 2"
  using round_half_even_cases(1,2) [of x]
  unfolding round_half_even_cases(3) [of x]
  by (simp split: if_splits)

lemma round_half_even_tie:
  assumes "\<bar>of_int (round_half_even x) - x\<bar> = 1 / 2"
  shows "even (round_half_even x)"
  using round_half_even_cases(1,2) [of x] assms
  unfolding round_half_even_cases(3) [of x]
  by (simp split: if_splits)

lemma py_round2_PyFloat:
  "\<exists>k. py_round2 (PyFloat y) = PyFloat (binary64 (of_int k / 100)) \<and>
       \<bar>of_int k - 100 * y\<bar> \<le> 1 / 2 \<and> (\<bar>of_int k - 100 * y\<bar> = 1 / 2 \<longrightarrow> even k)"
  using round_half_even_nearest [of "y * 100"] round_half_even_tie [of "y * 100"]
  by (intro exI [of _ "round_half_even (y * 100)"]) (simp add: py_round2_def mult.commute)


text \<open>
  Claim C5, as amended. For every existing poll and every entry of the results: the
  percentage is the int 0 when the poll has no Vote rows. Otherwise, with \<open>n\<close> the number
  of Vote rows of the poll, it is Python's \<open>round(votes / n * 100, 2)\<close> on floats: the
  float nearest to \<open>k / 100\<close>, where \<open>k\<close> is the integer nearest to a hundred times the
  float \<open>votes / n * 100\<close>, and a tie between two integers goes to the even one, not
  away from zero.
\<close>

theorem get_poll_results_percentage:
  assumes "Poll_get s poll_id = Some poll"
  shows "\<exists>r. get_poll_results s poll_id = Inr r \<and>
           (\<forall>e \<in> set (pr_results r).
              (count_votes_poll s poll = 0 \<longrightarrow> r_percentage e = PyInt 0) \<and>
              (0 < count_votes_poll s poll \<longrightarrow>
                 (\<exists>k. r_percentage e = PyFloat (binary64 (of_int k / 100)) \<and>
                    \<bar>of_int k - 100 * py_float_mul_int
                        (binary64 (of_nat (r_votes e) / of_nat (count_votes_poll s poll))) 100\<bar>
                      \<le> 1 / 2 \<and>
                    (\<bar>of_int k - 100 * py_float_mul_int
                        (binary64 (of_nat (r_votes e) / of_nat (count_votes_poll s poll))) 100\<bar>
                      = 1 / 2 \<longrightarrow> even k))))"
proof -
  let ?n = "count_votes_poll s poll"
  let ?entries = "map (\<lambda>c. projr (result_entry s poll c)) (poll_candidates s poll)"
  have set_eq: "set (sort_reverse r_votes ?entries) = set ?entries"
    by (metis mset_sort_reverse set_mset_mset)
  have "(?n = 0 \<longrightarrow> r_percentage e = PyInt 0) \<and>
        (0 < ?n \<longrightarrow>
           (\<exists>k. r_percentage e = PyFloat (binary64 (of_int k / 100)) \<and>
              \<bar>of_int k - 100 * py_float_mul_int (binary64 (of_nat (r_votes e) / of_nat ?n)) 100\<bar>
                \<le> 1 / 2 \<and>
              (\<bar>of_int k - 100 * py_float_mul_int (binary64 (of_nat (r_votes e) / of_nat ?n)) 100\<bar>
                = 1 / 2 \<longrightarrow> even k)))"
    if "e \<in> set ?entries" for e
  proof -
    from that obtain c where e: "e = projr (result_entry s poll c)" by auto
    show ?thesis
    proof (cases "?n = 0")
      case True
      then show ?thesis by (simp add: e result_entry_Inr py_round2_def)
    next
      case False
      then have "r_percentage e = py_round2 (PyFloat (py_float_mul_int
          (binary64 (of_nat (r_votes e) / of_nat ?n)) 100))"
        by (simp add: e result_entry_Inr)
      with False py_round2_PyFloat show ?thesis by simp
    qed
  qed
  then show ?thesis
    unfolding get_poll_results_eq [OF assms] by (simp add: set_eq)
qed

theorem get_poll_results_percentage_witness:
  "\<exists>r. get_poll_results (snd (create_vote demo_store (\<lambda>_. 150) (ballot 1 1 1))) 1 = Inr r \<and>
        list_all (\<lambda>e. \<exists>k. r_percentage e = PyFloat (binary64 (of_int k / 100)) \<and>
            \<bar>of_int k - 100 * py_float_mul_int (binary64 (of_nat (r_votes e) / 1)) 100\<bar> \<le> 1 / 2)
          (pr_results r)"
proof -
  let ?s = "snd (create_vote demo_store (\<lambda>_. 150) (ballot 1 1 1))"
  let ?poll = "\<lparr>p_id = 1, p_created_at = 0, p_election_id = 1, p_title = ''P'',
                 p_description = None, p_max_votes_per_voter = 1, p_is_active = True\<rparr>"
  have p: "Poll_get ?s 1 = Some ?poll"
    unfolding demo_voted_eq by (simp add: demo_lookups)
  have n: "count_votes_poll ?s ?poll = 1"
    unfolding demo_voted_eq by (simp add: count_votes_poll_def)
  from get_poll_results_percentage [OF p] show ?thesis
    unfolding n list_all_iff by fastforce
qed

text \<open>
  The claim as stated fails. In \<open>tie_store\<close> candidate 1 has 1 of the 32 votes of
  poll 1: \<open>1 / 32 * 100\<close> is the float 3.125 exactly, and \<open>round\<close> gives the float
  nearest to 3.12, where rounding the half away from zero gives 3.13.
\<close>

theorem get_poll_results_percentage_counterexample:
  "map r_candidate_id (pr_results (projr (get_poll_results tie_store 1))) = [2, 1] \<and>
   map r_votes (pr_results (projr (get_poll_results tie_store 1))) = [31, 1] \<and>
   pr_total_votes (projr (get_poll_results tie_store 1)) = 32 \<and>
   map r_percentage (pr_results (projr (get_poll_results tie_store 1))) =
     [PyFloat (binary64 (9688 / 100)), PyFloat (binary64 (312 / 100))] \<and>
   binary64 (312 / 100) = 3512807709348987 / 1125899906842624 \<and>
   spec_percentage 1 32 = 313 / 100 \<and>
   binary64 (312 / 100) \<noteq> binary64 (313 / 100) \<and>
   binary64 (312 / 100) \<noteq> 313 / 100"
  by code_simp

section \<open>The float model rounds to nearest\<close>

lemma pow2_powi: "pow2 e = 2 powi e"
  by (simp add: pow2_def power_int_def inverse_eq_divide power_one_over)

lemma pow2_pos [simp]: "0 < pow2 e"
  by (simp add: pow2_powi)

lemma pow2_nonneg [simp]: "0 \<le> pow2 e"
  by (simp add: pow2_powi)

lemma pow2_Suc: "pow2 (e + 1) = 2 * pow2 e"
  by (simp add: pow2_powi power_int_add)

lemma binade_bounds:
  assumes "0 < x"
  shows "pow2 (binade x) \<le> x \<and> x < pow2 (binade x + 1)"
proof -
  obtain n d where q: "quotient_of x = (n, d)" by (cases "quotient_of x")
  then have d: "0 < d" and x: "x = of_int n / of_int d"
    using quotient_of_denom_pos quotient_of_div by blast+
  with assms have n: "0 < n" by (simp add: zero_less_divide_iff)
  define e where "e = bitlen n - bitlen d"
  have bn: "2 ^ nat (bitlen n - 1) \<le> n" "n < 2 ^ nat (bitlen n)"
    and bd: "2 ^ nat (bitlen d - 1) \<le> d" "d < 2 ^ nat (bitlen d)"
    using bitlen_bounds [OF n] bitlen_bounds [OF d] by simp_all
  have pn: "1 \<le> bitlen n" and pd: "1 \<le> bitlen d"
    using n d by (simp_all add: bitlen_alt_def)
  have rn: "(2::rat) powi (bitlen n - 1) \<le> of_int n" "of_int n < (2::rat) powi (bitlen n)"
  proof -
    have "(2::rat) powi (bitlen n - 1) = of_int (2 ^ nat (bitlen n - 1))"
      using pn by (simp add: power_int_def)
    also have "\<dots> \<le> of_int n" using bn(1) by (simp only: of_int_le_iff)
    finally show "(2::rat) powi (bitlen n - 1) \<le> of_int n" .
    have "of_int n < (of_int (2 ^ nat (bitlen n)) :: rat)"
      using bn(2) by (simp only: of_int_less_iff)
    also have "\<dots> = 2 powi (bitlen n)" using pn by (simp add: power_int_def)
    finally show "of_int n < (2::rat) powi (bitlen n)" .
  qed
  have rd: "(2::rat) powi (bitlen d - 1) \<le> of_int d" "of_int d < (2::rat) powi (bitlen d)"
  proof -
    have "(2::rat) powi (bitlen d - 1) = of_int (2 ^ nat (bitlen d - 1))"
      using pd by (simp add: power_int_def)
    also have "\<dots> \<le> of_int d" using bd(1) by (simp only: of_int_le_iff)
    finally show "(2::rat) powi (bitlen d - 1) \<le> of_int d" .
    have "of_int d < (of_int (2 ^ nat (bitlen d)) :: rat)"
      using bd(2) by (simp only: of_int_less_iff)
    also have "\<dots> = 2 powi (bitlen d)" using pd by (simp add: power_int_def)
    finally show "of_int d < (2::rat) powi (bitlen d)" .
  qed
  have dpos: "(0::rat) < of_int d" using d by simp
  have lo: "pow2 (e - 1) \<le> x"
  proof -
    have "pow2 (e - 1) * of_int d \<le> 2 powi (e - 1) * 2 powi (bitlen d)"
      using rd(2) by (simp add: pow2_powi)
    also have "\<dots> = 2 powi (bitlen n - 1)"
      by (simp add: e_def power_int_add [symmetric])
    also have "\<dots> \<le> of_int n" by (rule rn(1))
    finally show ?thesis using dpos by (simp add: x pos_le_divide_eq)
  qed
  have hi: "x < pow2 (e + 1)"
  proof -
    have "of_int n < (2::rat) powi (bitlen n)" by (rule rn(2))
    also have "\<dots> = 2 powi (e + 1) * 2 powi (bitlen d - 1)"
      by (simp add: e_def power_int_add [symmetric])
    also have "\<dots> \<le> pow2 (e + 1) * of_int d"
      using rd(1) by (simp add: pow2_powi)
    finally show ?thesis using dpos by (simp add: x pos_divide_less_eq)
  qed
  have b: "binade x = (if pow2 e \<le> x then e else e - 1)"
    by (simp add: binade_def q e_def)
  show ?thesis
    using lo hi by (auto simp: b)
qed

lemma binary64_nearest:
  assumes "x \<noteq> 0"
  defines "e \<equiv> max (binade \<bar>x\<bar> - 52) (- 1074)"
  shows "\<exists>m. binary64 x = of_int m * pow2 e \<and> \<bar>m\<bar> \<le> 2 ^ 53 \<and>
           \<bar>binary64 x - x\<bar> \<le> pow2 e / 2"
proof -
  define m where "m = round_half_even (x / pow2 e)"
  have b: "binary64 x = of_int m * pow2 e"
    using assms(1) by (simp add: binary64_def e_def m_def Let_def)
  have near: "\<bar>of_int m - x / pow2 e\<bar> \<le> 1 / 2"
    unfolding m_def by (rule round_half_even_nearest)
  have ne: "pow2 e \<noteq> 0"
    by (simp add: pow2_powi)
  have "binary64 x - x = (of_int m - x / pow2 e) * pow2 e"
    using ne by (simp add: b left_diff_distrib)
  then have "\<bar>binary64 x - x\<bar> = \<bar>of_int m - x / pow2 e\<bar> * pow2 e"
    by (simp add: abs_mult abs_of_pos)
  also have "\<dots> \<le> 1 / 2 * pow2 e"
    using near by (intro mult_right_mono) simp_all
  finally have err: "\<bar>binary64 x - x\<bar> \<le> pow2 e / 2" by simp
  have "\<bar>x\<bar> < pow2 (binade \<bar>x\<bar> + 1)"
    using binade_bounds [of "\<bar>x\<bar>"] assms(1) by simp
  also have "\<dots> \<le> pow2 (e + 53)"
    unfolding pow2_powi by (intro power_int_increasing) (simp_all add: e_def)
  also have "\<dots> = 2 ^ 53 * pow2 e"
    by (simp add: pow2_powi power_int_add)
  finally have "\<bar>x / pow2 e\<bar> < 2 ^ 53"
    by (simp add: abs_divide pos_divide_less_eq abs_of_pos)
  with near have "\<bar>(of_int m :: rat)\<bar> < 2 ^ 53 + 1" by linarith
  then have "(of_int \<bar>m\<bar> :: rat) < of_int (2 ^ 53 + 1)"
    by simp
  then have "\<bar>m\<bar> < 2 ^ 53 + 1"
    by (simp only: of_int_less_iff)
  then have "\<bar>m\<bar> \<le> 2 ^ 53" by simp
  with b err show ?thesis by blast
qed

end
